theory Spec2Isabelle
  imports Main
begin

section \<open>Text helpers shared by the shell model\<close>

text \<open>
  Shell values are byte strings.  A line feed is written \<open>nl\<close>; \<open>unlines\<close> is the
  body of a here-document (every line ends with a line feed).
\<close>

definition nl :: string where
  "nl = [CHR 0x0A]"

definition unlines :: "string list \<Rightarrow> string" where
  "unlines ls = concat (map (\<lambda>l. l @ nl) ls)"

text \<open>Splitting at a separator character; the empty text gives one empty field.\<close>

fun split_on :: "char \<Rightarrow> string \<Rightarrow> string list" where
  "split_on sep [] = [[]]"
| "split_on sep (c # cs) =
     (if c = sep then [] # split_on sep cs
      else (case split_on sep cs of
              [] \<Rightarrow> [[c]]
            | f # fs \<Rightarrow> (c # f) # fs))"

text \<open>
  An array element or an awk field: the empty string when the index is out of range
  (\<open>${ip[3]}\<close> of a shorter array, \<open>$4\<close> of a record with fewer fields).
\<close>

definition field :: "string list \<Rightarrow> nat \<Rightarrow> string" where
  "field fs i = (if i < length fs then fs ! i else [])"

text \<open>Command substitution \<open>$(...)\<close> drops every trailing line feed of the output.\<close>

fun strip_nl_rev :: "string \<Rightarrow> string" where
  "strip_nl_rev [] = []"
| "strip_nl_rev (c # cs) = (if c = CHR 0x0A then strip_nl_rev cs else c # cs)"

definition cmd_subst :: "string \<Rightarrow> string" where
  "cmd_subst out = rev (strip_nl_rev (rev out))"

section \<open>\<open>validate_ip\<close> (ubuntu.sh, lines 20--32)\<close>

text \<open>
  The regular expression \<open>^[0-9]{1,3}\.[0-9]{1,3}\.[0-9]{1,3}\.[0-9]{1,3}$\<close> is run as a
  matcher on residuals: each piece maps a text to the list of texts that may remain after
  the piece has matched a prefix, and the whole expression matches when the empty text is
  among the residuals of the last piece.
\<close>

definition is_digit :: "char \<Rightarrow> bool" where
  "is_digit c = (c \<in> set ''0123456789'')"

fun re_digit :: "string \<Rightarrow> string list" where
  "re_digit [] = []"
| "re_digit (c # cs) = (if is_digit c then [cs] else [])"

fun re_dot :: "string \<Rightarrow> string list" where
  "re_dot [] = []"
| "re_dot (c # cs) = (if c = CHR ''.'' then [cs] else [])"

definition re_then :: "string list \<Rightarrow> (string \<Rightarrow> string list) \<Rightarrow> string list" where
  "re_then rs piece = concat (map piece rs)"

definition re_digits_1_3 :: "string \<Rightarrow> string list" where
  "re_digits_1_3 s =
     (let r1 = re_digit s;
          r2 = re_then r1 re_digit;
          r3 = re_then r2 re_digit
      in r1 @ r2 @ r3)"

definition ip_regex :: "string \<Rightarrow> bool" where
  "ip_regex s =
     ([] \<in> set (re_then (re_then (re_then (re_then (re_then (re_then
        (re_digits_1_3 s) re_dot) re_digits_1_3) re_dot) re_digits_1_3) re_dot)
        re_digits_1_3))"

text \<open>
  Inside \<open>[[ ... ]]\<close> the operands of \<open>-le\<close> are evaluated as arithmetic expressions.
  A constant that starts with \<open>0\<close> is read in base 8, and a digit \<open>8\<close> or \<open>9\<close> in it is
  an evaluation error (\<open>value too great for base\<close>): the value is \<open>None\<close> then, and the
  conditional command ends with status 1.
\<close>

definition digit_val :: "char \<Rightarrow> nat" where
  "digit_val c = of_char c - 48"

fun parse_base :: "nat \<Rightarrow> nat \<Rightarrow> string \<Rightarrow> nat option" where
  "parse_base b acc [] = Some acc"
| "parse_base b acc (c # cs) =
     (if digit_val c < b then parse_base b (acc * b + digit_val c) cs else None)"

definition arith_const :: "string \<Rightarrow> nat option" where
  "arith_const s =
     (case s of
        [] \<Rightarrow> Some 0
      | c # cs \<Rightarrow> if c = CHR ''0'' then parse_base 8 0 s else parse_base 10 0 s)"

definition le_255 :: "string \<Rightarrow> bool" where
  "le_255 s = (case arith_const s of None \<Rightarrow> False | Some v \<Rightarrow> v \<le> 255)"

definition validate_ip :: "string \<Rightarrow> bool" where
  "validate_ip ip =
     (if ip_regex ip then
        (let ip' = split_on (CHR ''.'') ip
         in le_255 (field ip' 0) \<and> le_255 (field ip' 1) \<and>
            le_255 (field ip' 2) \<and> le_255 (field ip' 3))
      else False)"

section \<open>The host and the state of a run (ubuntu.sh)\<close>

text \<open>
  The script talks to its host through the operator's terminal, the clock, the exit
  status of the programs it starts and the output of \<open>id -u\<close> and \<open>hostname\<close>.
  A host is one deterministic environment: \<open>tty h n\<close> is the value that the \<open>n\<close>-th
  \<open>read\<close> stores in \<open>input\<close>, \<open>clock h t\<close> is what \<open>date\<close> sees and
  \<open>succeeds h t argv\<close> tells whether the program started with \<open>argv\<close> exits with
  status 0, both at the moment when \<open>t\<close> events have happened so far.
  The fields of a \<open>stamp\<close> are the zero-padded fields that \<open>date\<close> prints.
\<close>

record stamp =
  yr :: string
  mo :: string
  dy :: string
  hh :: string
  mi :: string
  ss :: string

definition date_log :: "stamp \<Rightarrow> string" where
  \<comment> \<open>\<open>date '+%Y-%m-%d %H:%M:%S'\<close>\<close>
  "date_log t = yr t @ ''-'' @ mo t @ ''-'' @ dy t @ '' '' @ hh t @ '':'' @ mi t @ '':'' @ ss t"

definition date_backup :: "stamp \<Rightarrow> string" where
  \<comment> \<open>\<open>date +%Y%m%d_%H%M%S\<close>\<close>
  "date_backup t = yr t @ mo t @ dy t @ ''_'' @ hh t @ mi t @ ss t"

definition date_serial :: "stamp \<Rightarrow> string" where
  \<comment> \<open>\<open>date +%Y%m%d\<close>\<close>
  "date_serial t = yr t @ mo t @ dy t"

record host =
  uid :: string
  tty :: "nat \<Rightarrow> string"
  clock :: "nat \<Rightarrow> stamp"
  succeeds :: "nat \<Rightarrow> string list \<Rightarrow> bool"
  hostname :: string

text \<open>
  What a run does, in order: a prompt answered at the terminal, a line on standard output,
  a program started (with its exit status), a pause, a file written through \<open>cat > file\<close>
  and a line appended through \<open>>> file\<close>.  The standard input of a started program is
  not recorded.
\<close>

datatype event =
    Read string string
  | Log string
  | Exec "string list" bool
  | Sleep nat
  | Write string string
  | Append string string

text \<open>
  \<open>files\<close> holds the regular files the script tests, copies and writes, by path.  Of the
  started programs only \<open>cp\<close> changes it; what the other programs do to the host is seen
  through their exit status alone.  \<open>exit_code\<close> is \<open>None\<close> while the script runs.
\<close>

record state =
  trace :: "event list"
  files :: "string \<Rightarrow> string option"
  nread :: nat
  exit_code :: "nat option"

definition emit :: "event \<Rightarrow> state \<Rightarrow> state" where
  "emit e s = s\<lparr>trace := trace s @ [e]\<rparr>"

definition running :: "state \<Rightarrow> bool" where
  "running s = (exit_code s = None)"

text \<open>\<open>andthen s f\<close>: the next command runs unless the script has exited.\<close>

definition andthen :: "state \<Rightarrow> (state \<Rightarrow> state) \<Rightarrow> state" where
  "andthen s f = (if running s then f s else s)"

definition log_line :: "host \<Rightarrow> nat \<Rightarrow> string \<Rightarrow> string" where
  "log_line h t msg = ''['' @ date_log (clock h t) @ ''] '' @ msg"

definition log :: "host \<Rightarrow> string \<Rightarrow> state \<Rightarrow> state" where
  "log h msg s = emit (Log (log_line h (length (trace s)) msg)) s"

definition handle_error :: "host \<Rightarrow> string \<Rightarrow> state \<Rightarrow> state" where
  "handle_error h msg s = (log h (''ERROR: '' @ msg) s)\<lparr>exit_code := Some 1\<rparr>"

definition exec :: "host \<Rightarrow> string list \<Rightarrow> state \<Rightarrow> bool \<times> state" where
  "exec h argv s =
     (let ok = succeeds h (length (trace s)) argv in (ok, emit (Exec argv ok) s))"

text \<open>A program whose exit status the script ignores.\<close>

definition exec_ignore :: "host \<Rightarrow> string list \<Rightarrow> state \<Rightarrow> state" where
  "exec_ignore h argv s = snd (exec h argv s)"

text \<open>\<open>cmd || handle_error msg\<close> and \<open>cmd || log "WARNING: msg"\<close>.\<close>

definition exec_or_die :: "host \<Rightarrow> string list \<Rightarrow> string \<Rightarrow> state \<Rightarrow> state" where
  "exec_or_die h argv msg s =
     (case exec h argv s of (ok, s1) \<Rightarrow> if ok then s1 else handle_error h msg s1)"

definition exec_or_warn :: "host \<Rightarrow> string list \<Rightarrow> string \<Rightarrow> state \<Rightarrow> state" where
  "exec_or_warn h argv msg s =
     (case exec h argv s of (ok, s1) \<Rightarrow> if ok then s1 else log h (''WARNING: '' @ msg) s1)"

definition write_file :: "string \<Rightarrow> string \<Rightarrow> state \<Rightarrow> state" where
  \<comment> \<open>\<open>cat > path <<EOL\<close>: the script runs as root and the redirection is taken to succeed\<close>
  "write_file path content s = emit (Write path content) (s\<lparr>files := (files s)(path \<mapsto> content)\<rparr>)"

definition append_file :: "string \<Rightarrow> string \<Rightarrow> state \<Rightarrow> state" where
  "append_file path text s =
     emit (Append path text)
       (s\<lparr>files := (files s)(path \<mapsto> (case files s path of None \<Rightarrow> text | Some c \<Rightarrow> c @ text))\<rparr>)"

text \<open>Unquoted \<open>$var\<close> in a command line is split at blanks (pathname expansion is left out).\<close>

fun words_acc :: "string \<Rightarrow> string \<Rightarrow> string list" where
  "words_acc w [] = (if w = [] then [] else [w])"
| "words_acc w (c # cs) =
     (if c = CHR '' '' \<or> c = CHR 0x09 \<or> c = CHR 0x0A
      then (if w = [] then words_acc [] cs else w # words_acc [] cs)
      else words_acc (w @ [c]) cs)"

definition words :: "string \<Rightarrow> string list" where
  "words s = words_acc [] s"

section \<open>\<open>get_input\<close> (ubuntu.sh, lines 37--65)\<close>

text \<open>
  The function is always called as \<open>var=$(get_input ...)\<close>: its value is its standard
  output, captured, with the trailing line feeds dropped.  \<open>read -p\<close> shows the prompt on
  standard error, so the prompt is not captured; \<open>log\<close> writes to standard output, so the
  line it prints after a rejected entry is.  \<open>out\<close> is the output captured so far and
  \<open>dflt\<close> the parameter \<open>default\<close>.  The
  loop runs until an entry is accepted: the result is \<open>None\<close> when none ever is.
\<close>

partial_function (option) get_input ::
  "host \<Rightarrow> string \<Rightarrow> string \<Rightarrow> (string \<Rightarrow> bool) option \<Rightarrow> string \<Rightarrow> state
     \<Rightarrow> (string \<times> state) option"
where
  "get_input h prompt dflt validation_func out s =
     (let line = tty h (nread s);
          s1 = (emit (Read prompt line) s)\<lparr>nread := Suc (nread s)\<rparr>;
          input = (if line = [] \<and> dflt \<noteq> [] then dflt else line)
      in case validation_func of
           Some valid \<Rightarrow>
             if valid input then Some (cmd_subst (out @ input @ nl), s1)
             else get_input h prompt dflt validation_func
                    (out @ log_line h (length (trace s1)) ''Invalid input, please try again'' @ nl) s1
         | None \<Rightarrow> Some (cmd_subst (out @ input @ nl), s1))"

declare get_input.simps [code]

section \<open>Packages and backups (ubuntu.sh, lines 67--97)\<close>

definition check_package_installed :: "host \<Rightarrow> string \<Rightarrow> state \<Rightarrow> bool \<times> state" where
  "check_package_installed h package s = exec h [''dpkg'', ''-l'', package] s"

definition backup_config :: "host \<Rightarrow> string \<Rightarrow> state \<Rightarrow> state" where
  "backup_config h file s =
     (if files s file \<noteq> None then
        (let dst = file @ ''.backup.'' @ date_backup (clock h (length (trace s)))
         in case exec h [''cp'', file, dst] s of
              (ok, s1) \<Rightarrow>
                if ok then s1\<lparr>files := (files s1)(dst := files s1 file)\<rparr>
                else handle_error h (''Failed to backup file '' @ file) s1)
      else s)"

definition digit_char :: "nat \<Rightarrow> char" where
  "digit_char d = char_of (48 + d)"

fun show_nat :: "nat \<Rightarrow> string" where
  "show_nat n = (if n < 10 then [digit_char n] else show_nat (n div 10) @ [digit_char (n mod 10)])"

declare show_nat.simps [simp del]

definition max_attempts :: nat where
  "max_attempts = 3"

function install_attempts :: "host \<Rightarrow> string \<Rightarrow> nat \<Rightarrow> state \<Rightarrow> state" where
  "install_attempts h package attempt s =
     (if attempt \<le> max_attempts then
        (let s1 = log h (''Attempting to install '' @ package @ '' (Attempt '' @ show_nat attempt
                          @ '' of '' @ show_nat max_attempts @ '')'') s
         in case exec h [''apt-get'', ''install'', ''-y'', package] s1 of
              (ok, s2) \<Rightarrow>
                if ok then log h (''Successfully installed '' @ package) s2
                else install_attempts h package (attempt + 1) (emit (Sleep 5) s2))
      else handle_error h (''Failed to install '' @ package @ '' after '' @ show_nat max_attempts
                            @ '' attempts'') s)"
  by pat_completeness auto

termination
  by (relation "measure (\<lambda>(h, package, attempt, s). Suc max_attempts - attempt)") auto

declare install_attempts.simps [simp del]

definition install_package :: "host \<Rightarrow> string \<Rightarrow> state \<Rightarrow> state" where
  "install_package h package s = install_attempts h package 1 s"

section \<open>The main script (ubuntu.sh, lines 99--341)\<close>

record request =
  user_ip :: string
  user_domain :: string
  mysql_root_password :: string
  phpmyadmin_password :: string
  samba_username :: string
  samba_password :: string

text \<open>Lines 103--109: the six prompts, in order.\<close>

definition collect_input :: "host \<Rightarrow> state \<Rightarrow> (request \<times> state) option" where
  "collect_input h s =
     (case get_input h ''Enter IP address (e.g., 192.168.1.1): '' [] (Some validate_ip) [] s of
        None \<Rightarrow> None
      | Some (ip, s1) \<Rightarrow>
     (case get_input h ''Enter domain name (e.g., example.com): '' [] None [] s1 of
        None \<Rightarrow> None
      | Some (domain, s2) \<Rightarrow>
     (case get_input h ''Enter password for MySQL root: '' [] None [] s2 of
        None \<Rightarrow> None
      | Some (mysql, s3) \<Rightarrow>
     (case get_input h ''Enter password for phpMyAdmin: '' [] None [] s3 of
        None \<Rightarrow> None
      | Some (pma, s4) \<Rightarrow>
     (case get_input h ''Enter username for Samba (e.g., smbuser): '' [] None [] s4 of
        None \<Rightarrow> None
      | Some (smbuser, s5) \<Rightarrow>
     (case get_input h ''Enter password for Samba: '' [] None [] s5 of
        None \<Rightarrow> None
      | Some (smbpass, s6) \<Rightarrow>
          Some (\<lparr>user_ip = ip, user_domain = domain, mysql_root_password = mysql,
                 phpmyadmin_password = pma, samba_username = smbuser,
                 samba_password = smbpass\<rparr>, s6)))))))"

text \<open>Lines 111--113.\<close>

definition fix_interrupted :: "host \<Rightarrow> state \<Rightarrow> state" where
  "fix_interrupted h s =
     exec_or_die h [''dpkg'', ''--configure'', ''-a''] ''Failed to fix interrupted dpkg''
       (log h ''Fixing interrupted packages...'' s)"

text \<open>Lines 115--132.\<close>

definition update_system :: "host \<Rightarrow> state \<Rightarrow> state" where
  "update_system h s =
     (let s1 = log h ''Updating system packages...'' s;
          s2 = exec_ignore h [''apt-get'', ''clean''] s1;
          s3 = exec_ignore h [''apt-get'', ''autoremove'', ''-y''] s2;
          s4 = exec_ignore h [''apt-get'', ''autoclean''] s3
      in case exec h [''apt-get'', ''update'', ''-y''] s4 of
           (ok, s5) \<Rightarrow>
             if ok then s5
             else
               (let s6 = log h ''WARNING: Update failed, attempting fixes...'' s5;
                    s7 = exec_ignore h [''rm'', ''-f'', ''/var/lib/apt/lists/lock''] s6;
                    s8 = exec_ignore h [''rm'', ''-f'', ''/var/cache/apt/archives/lock''] s7;
                    s9 = exec_ignore h [''rm'', ''-f'', ''/var/lib/dpkg/lock*''] s8;
                    s10 = exec_ignore h [''dpkg'', ''--configure'', ''-a''] s9
                in exec_or_die h [''apt-get'', ''update'', ''-y''] ''Failed to update system'' s10))"

text \<open>Lines 134--139.\<close>

definition upgrade_system :: "host \<Rightarrow> state \<Rightarrow> state" where
  "upgrade_system h s =
     (case exec h [''apt-get'', ''upgrade'', ''-y''] s of
        (ok, s1) \<Rightarrow>
          if ok then s1
          else
            (let s2 = log h ''WARNING: Upgrade failed, attempting fixes...'' s1;
                 s3 = exec_ignore h [''dpkg'', ''--configure'', ''-a''] s2
             in exec_or_die h [''apt-get'', ''upgrade'', ''-y''] ''Failed to upgrade system'' s3))"

text \<open>Lines 141--150.\<close>

definition add_universe :: "host \<Rightarrow> state \<Rightarrow> state" where
  "add_universe h s =
     exec_or_die h [''add-apt-repository'', ''universe'', ''-y'']
       ''Failed to add universe repository'' s"

definition preseed :: "host \<Rightarrow> state \<Rightarrow> state" where
  "preseed h s =
     (let s1 = exec_ignore h [''debconf-set-selections''] s;
          s2 = exec_ignore h [''debconf-set-selections''] s1;
          s3 = exec_ignore h [''debconf-set-selections''] s2;
          s4 = exec_ignore h [''debconf-set-selections''] s3;
          s5 = exec_ignore h [''debconf-set-selections''] s4
      in exec_ignore h [''debconf-set-selections''] s5)"

text \<open>Lines 152--160.\<close>

definition packages :: "string list" where
  "packages = [''bind9'', ''apache2'', ''mysql-server'', ''apache2-utils'', ''phpmyadmin'', ''samba'']"

fun install_all :: "host \<Rightarrow> string list \<Rightarrow> state \<Rightarrow> state" where
  "install_all h [] s = s"
| "install_all h (package # rest) s =
     (case check_package_installed h package s of
        (installed, s1) \<Rightarrow>
          if \<not> installed then
            (let s2 = exec_ignore h [''dpkg'', ''--configure'', ''-a''] s1;
                 s3 = install_package h package s2
             in andthen s3 (install_all h rest))
          else install_all h rest s1)"

text \<open>Lines 162--166.\<close>

definition backed_up :: "string list" where
  "backed_up = [''/etc/resolv.conf'', ''/etc/bind/named.conf.default-zones'',
                ''/etc/apache2/sites-available/000-default.conf'', ''/etc/samba/smb.conf'']"

definition backup_all :: "host \<Rightarrow> state \<Rightarrow> state" where
  "backup_all h s =
     (let s1 = backup_config h ''/etc/resolv.conf'' s;
          s2 = andthen s1 (backup_config h ''/etc/bind/named.conf.default-zones'');
          s3 = andthen s2 (backup_config h ''/etc/apache2/sites-available/000-default.conf'')
      in andthen s3 (backup_config h ''/etc/samba/smb.conf''))"

text \<open>
  Lines 177 and 235: \<open>echo "$user_ip" | awk -F. '{print ...}'\<close>.  awk runs the action on every
  line of its input and prints one line for each; the command substitution then drops the
  trailing line feeds.
\<close>

definition records :: "string \<Rightarrow> string list" where
  "records input =
     (let ps = split_on (CHR 0x0A) input
      in if ps \<noteq> [] \<and> last ps = [] then butlast ps else ps)"

definition awk_print :: "(string list \<Rightarrow> string) \<Rightarrow> string \<Rightarrow> string" where
  "awk_print action input = unlines (map (\<lambda>r. action (split_on (CHR ''.'') r)) (records input))"

definition reversed_ip :: "request \<Rightarrow> string" where
  "reversed_ip rq =
     cmd_subst (awk_print (\<lambda>f. field f 2 @ ''.'' @ field f 1 @ ''.'' @ field f 0) (user_ip rq @ nl))"

definition octet :: "request \<Rightarrow> string" where
  "octet rq = cmd_subst (awk_print (\<lambda>f. field f 3) (user_ip rq @ nl))"

text \<open>The here-documents, with the variables and command substitutions expanded.\<close>

definition resolv_conf :: "request \<Rightarrow> string" where
  "resolv_conf rq = unlines
     [''nameserver '' @ user_ip rq,
      ''nameserver 8.8.8.8'',
      ''search '' @ user_domain rq,
      ''options edns0 trust-ad'']"

definition named_conf_default_zones :: "request \<Rightarrow> string" where
  \<open>named_conf_default_zones rq = unlines
     [''# Default zones'',
      ''zone "localhost" {'',
      ''    type master;'',
      ''    file "/etc/bind/db.local";'',
      ''};'',
      [],
      ''zone "127.in-addr.arpa" {'',
      ''    type master;'',
      ''    file "/etc/bind/db.127";'',
      ''};'',
      [],
      ''zone "0.in-addr.arpa" {'',
      ''    type master;'',
      ''    file "/etc/bind/db.0";'',
      ''};'',
      [],
      ''zone "255.in-addr.arpa" {'',
      ''    type master;'',
      ''    file "/etc/bind/db.255";'',
      ''};'',
      [],
      ''# Custom SMK zones'',
      ''zone "'' @ user_domain rq @ ''" {'',
      ''     type master;'',
      ''     file "/etc/bind/smk.db";'',
      '' };'',
      [],
      ''zone "'' @ reversed_ip rq @ ''.in-addr.arpa" {'',
      ''     type master;'',
      ''     file "/etc/bind/smk.ip";'',
      '' };'']\<close>

definition smk_db :: "stamp \<Rightarrow> request \<Rightarrow> string" where
  "smk_db now rq = unlines
     [''$TTL    604800'',
      ''@       IN      SOA     ns.'' @ user_domain rq @ ''. root.'' @ user_domain rq @ ''. ('',
      ''                        '' @ date_serial now @ ''01 ; Serial'',
      ''                        604800    ; Refresh'',
      ''                        86400     ; Retry'',
      ''                        2419200   ; Expire'',
      ''                        604800 )  ; Negative Cache TTL'',
      '';'',
      ''@       IN      NS      ns.'' @ user_domain rq @ ''.'',
      ''@       IN      MX 10   '' @ user_domain rq @ ''.'',
      ''@       IN      A       '' @ user_ip rq,
      ''ns      IN      A       '' @ user_ip rq,
      ''www     IN      CNAME   ns'',
      ''mail    IN      CNAME   ns'',
      ''ftp     IN      CNAME   ns'',
      ''ntp     IN      CNAME   ns'',
      ''proxy   IN      CNAME   ns'']"

definition smk_ip :: "stamp \<Rightarrow> request \<Rightarrow> string" where
  "smk_ip now rq = unlines
     [''@       IN      SOA     ns.'' @ user_domain rq @ ''. root.'' @ user_domain rq @ ''. ('',
      ''                        '' @ date_serial now @ ''01 ; Serial'',
      ''                        604800    ; Refresh'',
      ''                        86400     ; Retry'',
      ''                        2419200   ; Expire'',
      ''                        604800 )  ; Negative Cache TTL'',
      '';'',
      ''@       IN      NS      ns.'' @ user_domain rq @ ''.'',
      octet rq @ ''  IN      PTR     ns.'' @ user_domain rq @ ''.'']"

definition default_vhost :: "request \<Rightarrow> string" where
  "default_vhost rq = unlines
     [''<VirtualHost '' @ user_ip rq @ '':80>'',
      ''        ServerAdmin admin@'' @ user_domain rq,
      ''        ServerName www.'' @ user_domain rq,
      ''        DocumentRoot /var/www'',
      ''        ErrorLog ${APACHE_LOG_DIR}/error.log'',
      ''        LogLevel warn'',
      ''        CustomLog ${APACHE_LOG_DIR}/access.log combined'',
      ''        '',
      ''        <Directory /var/www/>'',
      ''                Options Indexes FollowSymLinks'',
      ''                AllowOverride All'',
      ''                Require all granted'',
      ''        </Directory>'',
      ''</VirtualHost>'']"

definition index_php :: "request \<Rightarrow> string" where
  "index_php rq = unlines
     [''<!DOCTYPE html>'',
      ''<html>'',
      ''<head>'',
      ''    <title>Welcome to '' @ user_domain rq @ ''</title>'',
      ''    <style>'',
      ''        body { font-family: Arial, sans-serif; margin: 40px; }'',
      ''        h1 { color: #333; }'',
      ''    </style>'',
      ''</head>'',
      ''<body>'',
      ''    <h1>Welcome to the '' @ user_domain rq @ '' Server</h1>'',
      ''    <?php phpinfo(); ?>'',
      ''</body>'',
      ''</html>'']"

definition smb_conf :: "string \<Rightarrow> request \<Rightarrow> string" where
  "smb_conf host_name rq = unlines
     [''[global]'',
      ''   workgroup = WORKGROUP'',
      ''   server string = Samba Server %v'',
      ''   netbios name = '' @ host_name,
      ''   security = user'',
      ''   map to guest = bad user'',
      ''   dns proxy = no'',
      [],
      ''[www]'',
      ''   path = /var/www/'',
      ''   browseable = yes'',
      ''   writeable = yes'',
      ''   valid users = '' @ samba_username rq,
      ''   create mask = 0644'',
      ''   directory mask = 0755'',
      ''   force user = www-data'']"

text \<open>Lines 168--246.\<close>

definition render_dns :: "host \<Rightarrow> request \<Rightarrow> state \<Rightarrow> state" where
  "render_dns h rq s =
     (let s1 = write_file ''/etc/resolv.conf'' (resolv_conf rq) s;
          s2 = write_file ''/etc/bind/named.conf.default-zones'' (named_conf_default_zones rq) s1;
          s3 = write_file ''/etc/bind/smk.db'' (smk_db (clock h (length (trace s2))) rq) s2
      in write_file ''/etc/bind/smk.ip'' (smk_ip (clock h (length (trace s3))) rq) s3)"

text \<open>Lines 248--288.\<close>

definition render_web :: "host \<Rightarrow> request \<Rightarrow> state \<Rightarrow> state" where
  "render_web h rq s =
     (let s1 = write_file ''/etc/apache2/sites-available/000-default.conf'' (default_vhost rq) s;
          s2 = exec_ignore h [''mkdir'', ''-p'', ''/var/www''] s1;
          s3 = write_file ''/var/www/index.php'' (index_php rq) s2;
          s4 = exec_ignore h [''chown'', ''-R'', ''www-data:www-data'', ''/var/www/''] s3;
          s5 = exec_ignore h [''find'', ''/var/www/'', ''-type'', ''d'', ''-exec'', ''chmod'', ''755'',
                               ''{}'', '';''] s4
      in exec_ignore h [''find'', ''/var/www/'', ''-type'', ''f'', ''-exec'', ''chmod'', ''644'',
                         ''{}'', '';''] s5)"

text \<open>Lines 290--314.\<close>

definition setup_samba :: "host \<Rightarrow> request \<Rightarrow> state \<Rightarrow> state" where
  "setup_samba h rq s =
     (let s1 = exec_ignore h ([''useradd'', ''-m''] @ words (samba_username rq)) s;
          s2 = exec_ignore h ([''passwd''] @ words (samba_username rq)) s1;
          s3 = write_file ''/etc/samba/smb.conf'' (smb_conf (hostname h) rq) s2
      in exec_ignore h ([''smbpasswd'', ''-a''] @ words (samba_username rq)) s3)"

text \<open>Lines 316--322.\<close>

definition enable_apache :: "host \<Rightarrow> state \<Rightarrow> state" where
  "enable_apache h s =
     (let s1 = append_file ''/etc/apache2/apache2.conf'' (''Include /etc/phpmyadmin/apache.conf'' @ nl) s;
          s2 = exec_ignore h [''a2ensite'', ''000-default.conf''] s1;
          s3 = exec_ignore h [''a2enmod'', ''rewrite''] s2
      in exec_ignore h [''a2enmod'', ''ssl''] s3)"

text \<open>Lines 324--329.\<close>

definition services :: "string list" where
  "services = [''bind9'', ''apache2'', ''mysql'', ''smbd'']"

fun restart_services :: "host \<Rightarrow> string list \<Rightarrow> state \<Rightarrow> state" where
  "restart_services h [] s = s"
| "restart_services h (service # rest) s =
     (let s1 = exec_or_warn h [''systemctl'', ''restart'', service] (''Failed to restart '' @ service) s;
          s2 = exec_or_warn h [''systemctl'', ''enable'', service] (''Failed to enable '' @ service) s1
      in restart_services h rest s2)"

text \<open>Lines 331--334.\<close>

definition test_configuration :: "host \<Rightarrow> state \<Rightarrow> state" where
  "test_configuration h s =
     (let s1 = log h ''Testing configuration...'' s;
          s2 = exec_or_warn h [''apache2ctl'', ''configtest''] ''Apache config test failed'' s1
      in exec_or_warn h [''named-checkconf''] ''BIND config test failed'' s2)"

text \<open>Lines 336--341; the script then ends with the status of its last command, 0.\<close>

definition summary :: "host \<Rightarrow> request \<Rightarrow> state \<Rightarrow> state" where
  "summary h rq s =
     (let s1 = log h ''==== Configuration Completed ===='' s;
          s2 = log h (''Domain: '' @ user_domain rq) s1;
          s3 = log h (''IP Address: '' @ user_ip rq) s2;
          s4 = log h (''phpMyAdmin URL: http://'' @ user_ip rq @ ''/phpmyadmin'') s3;
          s5 = log h (''Samba share available at: //'' @ user_ip rq @ ''/www'') s4;
          s6 = log h (''Samba Username: '' @ samba_username rq) s5
      in s6\<lparr>exit_code := Some 0\<rparr>)"

text \<open>Lines 168--341: nothing from the first here-document on can end the script early.\<close>

definition configure :: "host \<Rightarrow> request \<Rightarrow> state \<Rightarrow> state" where
  "configure h rq s =
     summary h rq (test_configuration h (restart_services h services (enable_apache h
       (setup_samba h rq (render_web h rq (render_dns h rq s))))))"

text \<open>Lines 111--160: everything before the first backup.\<close>

definition prepare :: "host \<Rightarrow> state \<Rightarrow> state" where
  "prepare h s =
     (let s1 = fix_interrupted h s;
          s2 = andthen s1 (update_system h);
          s3 = andthen s2 (upgrade_system h);
          s4 = andthen s3 (add_universe h);
          s5 = andthen s4 (preseed h)
      in andthen s5 (install_all h packages))"

text \<open>Lines 111--341.\<close>

definition provision :: "host \<Rightarrow> request \<Rightarrow> state \<Rightarrow> state" where
  "provision h rq s =
     (let s6 = prepare h s;
          s7 = andthen s6 (backup_all h)
      in andthen s7 (configure h rq))"

text \<open>
  The whole script.  \<open>disk\<close> is the content of the regular files when the script starts.
  The result is \<open>None\<close> when the script waits for a valid address for ever.
\<close>

definition initial :: "(string \<Rightarrow> string option) \<Rightarrow> state" where
  "initial disk = \<lparr>trace = [], files = disk, nread = 0, exit_code = None\<rparr>"

definition main :: "host \<Rightarrow> (string \<Rightarrow> string option) \<Rightarrow> state option" where
  "main h disk =
     (if uid h \<noteq> ''0'' then Some (handle_error h ''Script must be run with sudo'' (initial disk))
      else
        (case collect_input h (log h ''Starting server configuration...'' (initial disk)) of
           None \<Rightarrow> None
         | Some (rq, s) \<Rightarrow> Some (provision h rq s)))"

section \<open>The contact server (server/index.js)\<close>

text \<open>
  A field of the parsed JSON body, as far as the handler can tell values apart:
  \<^item> \<open>JUndefined\<close>: the field is absent;
  \<^item> \<open>JFalsy t\<close>: a present value that is falsy and not a string (\<open>null\<close>, \<open>false\<close>, \<open>0\<close>);
  \<^item> \<open>JStr s\<close>: a string, falsy exactly when empty;
  \<^item> \<open>JTruthy t\<close>: any other present value (\<open>true\<close>, a nonzero number, an array, an object).
  \<open>t\<close> is what a template literal makes of the value, \<open>None\<close> when the conversion throws.
\<close>

datatype jsval =
    JUndefined
  | JFalsy "string option"
  | JStr string
  | JTruthy "string option"

record req_body =
  name :: jsval
  email :: jsval
  message :: jsval

definition present :: "jsval \<Rightarrow> bool" where
  "present v = (v \<noteq> JUndefined)"

definition truthy :: "jsval \<Rightarrow> bool" where
  "truthy v = (case v of JUndefined \<Rightarrow> False | JFalsy t \<Rightarrow> False | JStr s \<Rightarrow> s \<noteq> [] | JTruthy t \<Rightarrow> True)"

definition to_string :: "jsval \<Rightarrow> string option" where
  "to_string v =
     (case v of JUndefined \<Rightarrow> Some ''undefined'' | JFalsy t \<Rightarrow> t | JStr s \<Rightarrow> Some s | JTruthy t \<Rightarrow> t)"

text \<open>The environment variables the handler reads; \<open>a || b\<close> on such values.\<close>

record env =
  FROM_EMAIL :: "string option"
  SMTP_USER :: "string option"
  TO_EMAIL :: "string option"

definition js_or :: "string option \<Rightarrow> string option \<Rightarrow> string option" where
  "js_or a b = (case a of None \<Rightarrow> b | Some s \<Rightarrow> if s \<noteq> [] then Some s else b)"

record mail_options =
  from_addr :: "string option"
  to_addr :: "string option"
  subject :: string
  text_part :: string
  html_part :: string

text \<open>\<open>message.replace(/\n/g, '<br/>')\<close>\<close>

fun replace_newlines :: "string \<Rightarrow> string" where
  "replace_newlines [] = []"
| "replace_newlines (c # cs) =
     (if c = CHR 0x0A then ''<br/>'' @ replace_newlines cs else c # replace_newlines cs)"

datatype json_body = ErrorBody string | SuccessBody bool

record response =
  status :: nat
  body :: json_body

text \<open>
  The handler either sends a response or, when building \<open>mailOptions\<close> throws (which happens
  before the \<open>try\<close> block), ends with a rejected promise and sends none itself.  \<open>sent\<close>
  lists the calls of \<open>transporter.sendMail\<close>, \<open>logged\<close> counts those of \<open>console.error\<close>.
\<close>

datatype outcome = Responded response | Threw

record handled =
  outcome :: outcome
  sent :: "mail_options list"
  logged :: nat

definition mailOptions :: "env \<Rightarrow> req_body \<Rightarrow> mail_options option" where
  "mailOptions e b =
     (case (to_string (name b), to_string (email b), to_string (message b), message b) of
        (Some n, Some a, Some m, JStr msg) \<Rightarrow>
          Some \<lparr>from_addr = js_or (FROM_EMAIL e) (SMTP_USER e),
                to_addr = js_or (TO_EMAIL e) (Some ''shahmeersohail31@gmail.com''),
                subject = ''Portfolio Contact: '' @ n,
                text_part = ''Name: '' @ n @ nl @ ''Email: '' @ a @ nl @ nl @ m,
                html_part = ''<p><strong>Name:</strong> '' @ n @ ''</p><p><strong>Email:</strong> '' @ a
                            @ ''</p><p><strong>Message:</strong><br/>'' @ replace_newlines msg @ ''</p>''\<rparr>
      | _ \<Rightarrow> None)"

text \<open>\<open>sendMail\<close> is the transport: it tells whether the promise of \<open>sendMail\<close> resolves.\<close>

definition send_email :: "env \<Rightarrow> (mail_options \<Rightarrow> bool) \<Rightarrow> req_body \<Rightarrow> handled" where
  "send_email e sendMail b =
     (if \<not> truthy (name b) \<or> \<not> truthy (email b) \<or> \<not> truthy (message b) then
        \<lparr>outcome = Responded \<lparr>status = 400, body = ErrorBody ''Missing fields''\<rparr>, sent = [], logged = 0\<rparr>
      else
        (case mailOptions e b of
           None \<Rightarrow> \<lparr>outcome = Threw, sent = [], logged = 0\<rparr>
         | Some opts \<Rightarrow>
             if sendMail opts then
               \<lparr>outcome = Responded \<lparr>status = 200, body = SuccessBody True\<rparr>, sent = [opts], logged = 0\<rparr>
             else
               \<lparr>outcome = Responded \<lparr>status = 500, body = ErrorBody ''Failed to send email''\<rparr>,
                sent = [opts], logged = 1\<rparr>))"

section \<open>Definitions used in the statements\<close>

text \<open>
  The address format in the words of the specification: four groups separated by dots,
  each of one to three decimal digits and of decimal value at most 255.
\<close>

definition decimal :: "string \<Rightarrow> nat" where
  "decimal g = foldl (\<lambda>acc c. acc * 10 + digit_val c) 0 g"

definition spec_group :: "string \<Rightarrow> bool" where
  "spec_group g = (1 \<le> length g \<and> length g \<le> 3 \<and> list_all is_digit g \<and> decimal g \<le> 255)"

definition spec_dotted_quad :: "string \<Rightarrow> bool" where
  "spec_dotted_quad s =
     (let gs = split_on (CHR ''.'') s in length gs = 4 \<and> list_all spec_group gs)"

text \<open>Requests, environments and transports of the contact server used as examples.\<close>

definition env0 :: env where
  "env0 = \<lparr>FROM_EMAIL = None, SMTP_USER = Some ''relay@example.com'', TO_EMAIL = None\<rparr>"

definition transport_up :: "mail_options \<Rightarrow> bool" where
  "transport_up opts = True"

definition transport_down :: "mail_options \<Rightarrow> bool" where
  "transport_down opts = False"

definition scenario_B :: req_body where
  "scenario_B = \<lparr>name = JStr ''A'', email = JStr ''a@b.com'', message = JStr ''hi''\<rparr>"

definition without_message :: req_body where
  "without_message = \<lparr>name = JStr ''A'', email = JStr ''a@b.com'', message = JUndefined\<rparr>"

definition empty_name :: req_body where
  "empty_name = \<lparr>name = JStr [], email = JStr ''a@b.com'', message = JStr ''hi''\<rparr>"

definition empty_message :: req_body where
  "empty_message = \<lparr>name = JStr ''A'', email = JStr ''a@b.com'', message = JStr []\<rparr>"

definition numeric_message :: req_body where
  "numeric_message = \<lparr>name = JStr ''A'', email = JStr ''a@b.com'', message = JTruthy (Some ''5'')\<rparr>"

text \<open>Kinds of events.\<close>

definition is_read :: "event \<Rightarrow> bool" where
  "is_read e = (case e of Read p l \<Rightarrow> True | _ \<Rightarrow> False)"

definition is_write :: "event \<Rightarrow> bool" where
  "is_write e = (case e of Write p c \<Rightarrow> True | _ \<Rightarrow> False)"

definition writes_to :: "string \<Rightarrow> event \<Rightarrow> bool" where
  "writes_to p e = (case e of Write q c \<Rightarrow> q = p | _ \<Rightarrow> False)"

definition is_mutation :: "event \<Rightarrow> bool" where
  "is_mutation e =
     (case e of Exec argv ok \<Rightarrow> True | Write p c \<Rightarrow> True | Append p c \<Rightarrow> True | _ \<Rightarrow> False)"

definition is_install :: "string \<Rightarrow> event \<Rightarrow> bool" where
  "is_install p e =
     (case e of Exec argv ok \<Rightarrow> argv = [''apt-get'', ''install'', ''-y'', p] | _ \<Rightarrow> False)"

definition is_failed_install :: "string \<Rightarrow> event \<Rightarrow> bool" where
  "is_failed_install p e = (e = Exec [''apt-get'', ''install'', ''-y'', p] False)"

definition any_install :: "event \<Rightarrow> bool" where
  "any_install e = (case e of Exec argv ok \<Rightarrow> take 2 argv = [''apt-get'', ''install''] | _ \<Rightarrow> False)"

definition any_failed_install :: "event \<Rightarrow> bool" where
  "any_failed_install e =
     (case e of Exec argv ok \<Rightarrow> \<not> ok \<and> take 2 argv = [''apt-get'', ''install''] | _ \<Rightarrow> False)"

definition any_query :: "event \<Rightarrow> bool" where
  "any_query e = (case e of Exec argv ok \<Rightarrow> take 2 argv = [''dpkg'', ''-l''] | _ \<Rightarrow> False)"

definition is_service_cmd :: "event \<Rightarrow> bool" where
  "is_service_cmd e =
     (case e of
        Exec argv ok \<Rightarrow> take 1 argv = [''systemctl''] \<or> argv = [''apache2ctl'', ''configtest'']
                        \<or> argv = [''named-checkconf'']
      | _ \<Rightarrow> False)"

definition argv_of :: "event \<Rightarrow> string list" where
  "argv_of e = (case e of Exec argv ok \<Rightarrow> argv | _ \<Rightarrow> [])"

definition is_failure :: "event \<Rightarrow> bool" where
  "is_failure e = (case e of Exec argv ok \<Rightarrow> \<not> ok | _ \<Rightarrow> False)"

text \<open>
  The events of the three parts of a run after the prompts: preparing the host and backing
  up (\<open>prep\<close>), installing packages (\<open>pkg\<close>), and lines 168--341 (\<open>conf\<close>).
\<close>

definition prep :: "event \<Rightarrow> bool" where
  "prep e =
     (case e of
        Log l \<Rightarrow> True
      | Exec argv ok \<Rightarrow> \<not> any_install e \<and> \<not> any_query e \<and> \<not> is_service_cmd e
      | _ \<Rightarrow> False)"

definition pkg :: "event \<Rightarrow> bool" where
  "pkg e =
     (case e of Log l \<Rightarrow> True | Sleep n \<Rightarrow> True | Exec argv ok \<Rightarrow> \<not> is_service_cmd e | _ \<Rightarrow> False)"

definition conf :: "event \<Rightarrow> bool" where
  "conf e =
     (case e of
        Exec argv ok \<Rightarrow> \<not> any_install e \<and> \<not> any_query e
      | Read p l \<Rightarrow> False
      | Sleep n \<Rightarrow> False
      | _ \<Rightarrow> True)"

text \<open>\<open>grows P s s'\<close>: the trace of \<open>s'\<close> is that of \<open>s\<close> followed by events of kind \<open>P\<close>.\<close>

definition grows :: "(event \<Rightarrow> bool) \<Rightarrow> state \<Rightarrow> state \<Rightarrow> bool" where
  "grows P s s' = (\<exists>evs. trace s' = trace s @ evs \<and> list_all P evs)"

text \<open>Every failed installation attempt is followed at once by \<open>sleep 5\<close>.\<close>

fun delays_ok :: "event list \<Rightarrow> bool" where
  "delays_ok [] = True"
| "delays_ok (e # rest) =
     ((if any_failed_install e then take 1 rest = [Sleep 5] else True) \<and> delays_ok rest)"

text \<open>Every failed service command or configuration test is followed at once by a warning.\<close>

fun has_infix :: "string \<Rightarrow> string \<Rightarrow> bool" where
  "has_infix pat [] = (pat = [])"
| "has_infix pat (c # cs) = (take (length pat) (c # cs) = pat \<or> has_infix pat cs)"

definition is_warning :: "event \<Rightarrow> bool" where
  "is_warning e = (case e of Log l \<Rightarrow> has_infix ''] WARNING: '' l | _ \<Rightarrow> False)"

fun warned :: "event list \<Rightarrow> bool" where
  "warned [] = True"
| "warned (e # rest) =
     ((if is_service_cmd e \<and> is_failure e then list_all is_warning (take 1 rest) \<and> rest \<noteq> []
       else True) \<and> warned rest)"

text \<open>The commands of lines 324--334, in order.\<close>

definition service_commands :: "string list list" where
  "service_commands =
     [[''systemctl'', ''restart'', ''bind9''], [''systemctl'', ''enable'', ''bind9''],
      [''systemctl'', ''restart'', ''apache2''], [''systemctl'', ''enable'', ''apache2''],
      [''systemctl'', ''restart'', ''mysql''], [''systemctl'', ''enable'', ''mysql''],
      [''systemctl'', ''restart'', ''smbd''], [''systemctl'', ''enable'', ''smbd''],
      [''apache2ctl'', ''configtest''], [''named-checkconf'']]"

text \<open>The files the script writes through a here-document.\<close>

definition rendered_files :: "string list" where
  "rendered_files =
     [''/etc/resolv.conf'', ''/etc/bind/named.conf.default-zones'', ''/etc/bind/smk.db'',
      ''/etc/bind/smk.ip'', ''/etc/apache2/sites-available/000-default.conf'',
      ''/var/www/index.php'', ''/etc/samba/smb.conf'']"

text \<open>The prompts of lines 103--109.\<close>

definition prompts :: "string list" where
  "prompts =
     [''Enter IP address (e.g., 192.168.1.1): '', ''Enter domain name (e.g., example.com): '',
      ''Enter password for MySQL root: '', ''Enter password for phpMyAdmin: '',
      ''Enter username for Samba (e.g., smbuser): '', ''Enter password for Samba: '']"

text \<open>What a whole run leaves behind; \<open>None\<close> and \<open>[]\<close> when the script never gets past the prompts.\<close>

definition run_exit :: "host \<Rightarrow> (string \<Rightarrow> string option) \<Rightarrow> nat option" where
  "run_exit h disk = (case main h disk of None \<Rightarrow> None | Some s \<Rightarrow> exit_code s)"

definition run_trace :: "host \<Rightarrow> (string \<Rightarrow> string option) \<Rightarrow> event list" where
  "run_trace h disk = (case main h disk of None \<Rightarrow> [] | Some s \<Rightarrow> trace s)"

definition run_files :: "host \<Rightarrow> (string \<Rightarrow> string option) \<Rightarrow> string \<Rightarrow> string option" where
  "run_files h disk p = (case main h disk of None \<Rightarrow> None | Some s \<Rightarrow> files s p)"

definition collected :: "host \<Rightarrow> (string \<Rightarrow> string option) \<Rightarrow> request option" where
  "collected h disk =
     map_option fst (collect_input h (log h ''Starting server configuration...'' (initial disk)))"

text \<open>The destinations of the successful copies of \<open>p\<close> in a trace.\<close>

definition copies_of :: "string \<Rightarrow> event list \<Rightarrow> string list" where
  "copies_of p tr =
     map (\<lambda>e. field (argv_of e) 2)
       (filter (\<lambda>e. \<not> is_failure e \<and> take 2 (argv_of e) = [''cp'', p]) tr)"

text \<open>Hosts used as examples.\<close>

definition noon :: stamp where
  "noon = \<lparr>yr = ''2026'', mo = ''11'', dy = ''03'', hh = ''12'', mi = ''00'', ss = ''00''\<rparr>"

definition evening :: stamp where
  "evening = \<lparr>yr = ''2026'', mo = ''11'', dy = ''03'', hh = ''21'', mi = ''30'', ss = ''15''\<rparr>"

definition answers :: "string list" where
  "answers = [''192.168.1.10'', ''example.com'', ''rootpw'', ''pmapw'', ''smbuser'', ''smbpw'']"

definition always :: "nat \<Rightarrow> string list \<Rightarrow> bool" where
  "always t argv = True"

definition host_ok :: host where
  "host_ok = \<lparr>uid = ''0'', tty = field answers, clock = (\<lambda>t. noon), succeeds = always,
               hostname = ''server1''\<rparr>"

definition rq_ok :: request where
  "rq_ok = \<lparr>user_ip = ''192.168.1.10'', user_domain = ''example.com'',
             mysql_root_password = ''rootpw'', phpmyadmin_password = ''pmapw'',
             samba_username = ''smbuser'', samba_password = ''smbpw''\<rparr>"

definition asks :: "string \<Rightarrow> event \<Rightarrow> bool" where
  "asks p e = (case e of Read q l \<Rightarrow> q = p | _ \<Rightarrow> False)"

definition asked :: "string \<Rightarrow> state \<Rightarrow> state \<Rightarrow> bool" where
  "asked p s s' = (grows (asks p) s s' \<and> (\<exists>l. Read p l \<in> set (trace s'))
     \<and> files s' = files s \<and> exit_code s' = exit_code s)"

text \<open>\<open>quiet P s s'\<close>: a step that adds events of kind \<open>P\<close>, leaves the files alone and can only
  end the script with status 1.\<close>

definition quiet :: "(event \<Rightarrow> bool) \<Rightarrow> state \<Rightarrow> state \<Rightarrow> bool" where
  "quiet P s s' = (grows P s s' \<and> files s' = files s
     \<and> (exit_code s' = exit_code s \<or> exit_code s' = Some 1))"

definition pkg_of :: "string \<Rightarrow> event \<Rightarrow> bool" where
  "pkg_of p e =
     (case e of Log l \<Rightarrow> True | Sleep n \<Rightarrow> True
      | Exec argv ok \<Rightarrow> argv = [''apt-get'', ''install'', ''-y'', p] | _ \<Rightarrow> False)"

definition attempt_run :: "string \<Rightarrow> nat \<Rightarrow> state \<Rightarrow> state \<Rightarrow> bool" where
  "attempt_run p k s s' =
     (\<exists>evs. trace s' = trace s @ evs \<and> list_all (pkg_of p) evs \<and> delays_ok evs
        \<and> length (filter (is_install p) evs) \<le> k
        \<and> (length (filter (is_failed_install p) evs) = k \<longrightarrow> exit_code s' = Some 1)
        \<and> files s' = files s \<and> (exit_code s' = exit_code s \<or> exit_code s' = Some 1))"

definition installs_run :: "string list \<Rightarrow> state \<Rightarrow> state \<Rightarrow> bool" where
  "installs_run ps s s' =
     (\<exists>evs. trace s' = trace s @ evs \<and> list_all pkg evs \<and> delays_ok evs
        \<and> (\<forall>p. length (filter (is_install p) evs) \<le> 3
               \<and> (p \<notin> set ps \<longrightarrow> filter (is_install p) evs = []
                     \<and> Exec [''dpkg'', ''-l'', p] True \<notin> set evs)
               \<and> (Exec [''dpkg'', ''-l'', p] True \<in> set evs \<longrightarrow> filter (is_install p) evs = [])
               \<and> (length (filter (is_failed_install p) evs) = 3 \<longrightarrow> exit_code s' = Some 1))
        \<and> files s' = files s \<and> (exit_code s' = exit_code s \<or> exit_code s' = Some 1))"

definition backup_name :: "host \<Rightarrow> string \<Rightarrow> state \<Rightarrow> string" where
  "backup_name h f s = f @ ''.backup.'' @ date_backup (clock h (length (trace s)))"

text \<open>\<open>steps P s s'\<close>: a step that adds events of kind \<open>P\<close> and can only end the script with
  status 1.\<close>

definition steps :: "(event \<Rightarrow> bool) \<Rightarrow> state \<Rightarrow> state \<Rightarrow> bool" where
  "steps P s s' = (grows P s s' \<and> (exit_code s' = exit_code s \<or> exit_code s' = Some 1))"

definition plain :: "event \<Rightarrow> bool" where
  "plain e = (conf e \<and> \<not> is_service_cmd e)"

definition restarts :: "string list \<Rightarrow> string list list" where
  "restarts svs = concat (map (\<lambda>sv. [[''systemctl'', ''restart'', sv], [''systemctl'', ''enable'', sv]]) svs)"

definition reconciled :: "string list list \<Rightarrow> state \<Rightarrow> state \<Rightarrow> bool" where
  "reconciled cmds s s' =
     (\<exists>evs. trace s' = trace s @ evs \<and> list_all conf evs \<and> warned evs
        \<and> map argv_of (filter is_service_cmd evs) = cmds)"

section \<open>The contact server: responses\<close>

text \<open>
  C6, as stated, fails: a body in which all three fields are present gets 400 when one of
  them is the empty string, and no response from the handler when \<open>message\<close> is a number,
  although the transport would succeed.
\<close>

theorem present_fields_not_enough:
  "present (name empty_name) \<and> present (email empty_name) \<and> present (message empty_name)
   \<and> outcome (send_email env0 transport_up empty_name)
       = Responded \<lparr>status = 400, body = ErrorBody ''Missing fields''\<rparr>
   \<and> present (name numeric_message) \<and> present (email numeric_message)
   \<and> present (message numeric_message)
   \<and> outcome (send_email env0 transport_up numeric_message) = Threw"
  by (simp add: present_def empty_name_def numeric_message_def send_email_def truthy_def
      mailOptions_def to_string_def)

text \<open>
  C6, amended: a request in which one of \<open>name\<close>, \<open>email\<close>, \<open>message\<close> is absent or falsy
  (the empty string included) gets 400 with \<open>{error: "Missing fields"}\<close> and nothing is sent.
  A request in which all three are truthy, \<open>name\<close> and \<open>email\<close> convert to strings and
  \<open>message\<close> is a string gets 200 with \<open>{success: true}\<close> when the transport succeeds and
  500 with \<open>{error: "Failed to send email"}\<close> when it fails; in both cases \<open>sendMail\<close> is
  called exactly once.
\<close>

theorem send_email_contract:
  "(\<not> truthy (name b) \<or> \<not> truthy (email b) \<or> \<not> truthy (message b) \<longrightarrow>
      outcome (send_email e sendMail b)
        = Responded \<lparr>status = 400, body = ErrorBody ''Missing fields''\<rparr>
      \<and> sent (send_email e sendMail b) = [])
   \<and> (truthy (name b) \<and> truthy (email b) \<and> to_string (name b) \<noteq> None
        \<and> to_string (email b) \<noteq> None \<and> (\<exists>m. message b = JStr m \<and> m \<noteq> []) \<longrightarrow>
        (\<exists>opts. mailOptions e b = Some opts
           \<and> sent (send_email e sendMail b) = [opts]
           \<and> (sendMail opts \<longrightarrow>
                 outcome (send_email e sendMail b)
                   = Responded \<lparr>status = 200, body = SuccessBody True\<rparr>)
           \<and> (\<not> sendMail opts \<longrightarrow>
                 outcome (send_email e sendMail b)
                   = Responded \<lparr>status = 500, body = ErrorBody ''Failed to send email''\<rparr>)))"
  by (auto simp add: send_email_def mailOptions_def truthy_def to_string_def
      split: option.splits jsval.splits)

theorem send_email_contract_witness:
  "outcome (send_email env0 transport_up without_message)
     = Responded \<lparr>status = 400, body = ErrorBody ''Missing fields''\<rparr>
   \<and> sent (send_email env0 transport_up without_message) = []
   \<and> outcome (send_email env0 transport_up scenario_B)
     = Responded \<lparr>status = 200, body = SuccessBody True\<rparr>
   \<and> length (sent (send_email env0 transport_up scenario_B)) = 1
   \<and> outcome (send_email env0 transport_down scenario_B)
     = Responded \<lparr>status = 500, body = ErrorBody ''Failed to send email''\<rparr>
   \<and> length (sent (send_email env0 transport_down scenario_B)) = 1"
  using send_email_contract [of without_message env0 transport_up]
    send_email_contract [of scenario_B env0 transport_up]
    send_email_contract [of scenario_B env0 transport_down]
  by (auto simp add: without_message_def scenario_B_def truthy_def to_string_def
      transport_up_def transport_down_def)

text \<open>
  C9: when \<open>name\<close>, \<open>email\<close> and \<open>message\<close> are all present and one of them is the empty
  string, the response is 400 with \<open>{error: "Missing fields"}\<close> and \<open>sendMail\<close> is not called.
\<close>

theorem empty_string_is_missing:
  assumes "present (name b)" and "present (email b)" and "present (message b)"
    and "name b = JStr [] \<or> email b = JStr [] \<or> message b = JStr []"
  shows "outcome (send_email e sendMail b)
           = Responded \<lparr>status = 400, body = ErrorBody ''Missing fields''\<rparr>
         \<and> sent (send_email e sendMail b) = []"
  using assms(4) by (auto simp add: send_email_def truthy_def)

theorem empty_string_is_missing_witness:
  "present (name empty_message) \<and> present (email empty_message) \<and> present (message empty_message)
   \<and> message empty_message = JStr []
   \<and> outcome (send_email env0 transport_up empty_message)
       = Responded \<lparr>status = 400, body = ErrorBody ''Missing fields''\<rparr>
   \<and> sent (send_email env0 transport_up empty_message) = []"
proof -
  have p: "present (name empty_message)" "present (email empty_message)"
    "present (message empty_message)"
    by (simp_all add: present_def empty_message_def)
  have q: "name empty_message = JStr [] \<or> email empty_message = JStr []
           \<or> message empty_message = JStr []"
    by (simp add: empty_message_def)
  from empty_string_is_missing [OF p q, of env0 transport_up] p q show ?thesis
    by (simp add: empty_message_def)
qed

section \<open>Projections of the primitive steps\<close>

lemma emit_proj [simp]:
  "trace (emit e s) = trace s @ [e]" "files (emit e s) = files s"
  "exit_code (emit e s) = exit_code s" "nread (emit e s) = nread s"
  by (simp_all add: emit_def)

lemma log_proj [simp]:
  "trace (log h m s) = trace s @ [Log (log_line h (length (trace s)) m)]"
  "files (log h m s) = files s" "exit_code (log h m s) = exit_code s" "nread (log h m s) = nread s"
  by (simp_all add: log_def)

lemma handle_error_proj [simp]:
  "trace (handle_error h m s) = trace s @ [Log (log_line h (length (trace s)) (''ERROR: '' @ m))]"
  "files (handle_error h m s) = files s" "exit_code (handle_error h m s) = Some 1"
  "nread (handle_error h m s) = nread s"
  by (simp_all add: handle_error_def)

lemma exec_ignore_proj [simp]:
  "trace (exec_ignore h a s) = trace s @ [Exec a (succeeds h (length (trace s)) a)]"
  "files (exec_ignore h a s) = files s" "exit_code (exec_ignore h a s) = exit_code s"
  "nread (exec_ignore h a s) = nread s"
  by (simp_all add: exec_ignore_def exec_def Let_def)

lemma exec_eq: "exec h a s = (succeeds h (length (trace s)) a, exec_ignore h a s)"
  by (simp add: exec_ignore_def exec_def Let_def)

lemma exec_or_die_proj [simp]:
  "trace (exec_or_die h a m s) = trace s @ Exec a (succeeds h (length (trace s)) a)
     # (if succeeds h (length (trace s)) a then []
        else [Log (log_line h (Suc (length (trace s))) (''ERROR: '' @ m))])"
  "files (exec_or_die h a m s) = files s"
  "exit_code (exec_or_die h a m s) = (if succeeds h (length (trace s)) a then exit_code s else Some 1)"
  "nread (exec_or_die h a m s) = nread s"
  by (simp_all add: exec_or_die_def exec_eq)

lemma exec_or_warn_proj [simp]:
  "trace (exec_or_warn h a m s) = trace s @ Exec a (succeeds h (length (trace s)) a)
     # (if succeeds h (length (trace s)) a then []
        else [Log (log_line h (Suc (length (trace s))) (''WARNING: '' @ m))])"
  "files (exec_or_warn h a m s) = files s"
  "exit_code (exec_or_warn h a m s) = exit_code s"
  "nread (exec_or_warn h a m s) = nread s"
  by (simp_all add: exec_or_warn_def exec_eq)

lemma write_file_proj [simp]:
  "trace (write_file p c s) = trace s @ [Write p c]"
  "files (write_file p c s) = (files s)(p \<mapsto> c)"
  "exit_code (write_file p c s) = exit_code s" "nread (write_file p c s) = nread s"
  by (simp_all add: write_file_def)

lemma append_file_proj [simp]:
  "trace (append_file p c s) = trace s @ [Append p c]"
  "files (append_file p c s) = (files s)(p \<mapsto> (case files s p of None \<Rightarrow> c | Some x \<Rightarrow> x @ c))"
  "exit_code (append_file p c s) = exit_code s" "nread (append_file p c s) = nread s"
  by (simp_all add: append_file_def)

lemmas if_proj = if_distrib [of trace] if_distrib [of files] if_distrib [of exit_code]
  if_distrib [of nread]

lemmas ev_defs = prep_def pkg_def conf_def any_install_def any_query_def is_service_cmd_def
  is_write_def is_read_def

section \<open>Growing traces\<close>

lemma grows_refl: "grows P s s"
  by (simp add: grows_def)

lemma grows_trans: "grows P s s1 \<Longrightarrow> grows P s1 s2 \<Longrightarrow> grows P s s2"
  by (auto simp add: grows_def)

lemma grows_weaken: "grows P s s1 \<Longrightarrow> (\<And>e. P e \<Longrightarrow> Q e) \<Longrightarrow> grows Q s s1"
  by (auto simp add: grows_def list_all_iff)

lemma grows_andthen:
  "grows P s s1 \<Longrightarrow> (\<And>x. grows P x (f x)) \<Longrightarrow> grows P s (andthen s1 f)"
  by (auto simp add: andthen_def intro: grows_trans)

section \<open>The prompts\<close>

lemma cmd_subst_nl: "cmd_subst nl = []"
  by (simp add: cmd_subst_def nl_def)

lemma get_input_unvalidated:
  "get_input h prompt dflt None out s =
     Some (cmd_subst (out @ (if tty h (nread s) = [] \<and> dflt \<noteq> [] then dflt else tty h (nread s)) @ nl),
           (emit (Read prompt (tty h (nread s))) s)\<lparr>nread := Suc (nread s)\<rparr>)"
  by (subst get_input.simps) (simp add: Let_def)

lemma get_input_accepts:
  "valid (tty h (nread s)) \<Longrightarrow> get_input h prompt [] (Some valid) out s =
     Some (cmd_subst (out @ tty h (nread s) @ nl),
           (emit (Read prompt (tty h (nread s))) s)\<lparr>nread := Suc (nread s)\<rparr>)"
  by (subst get_input.simps) (simp add: Let_def)

lemma get_input_rejects:
  "\<not> valid (tty h (nread s)) \<Longrightarrow> get_input h prompt [] (Some valid) out s =
     get_input h prompt [] (Some valid)
       (out @ log_line h (Suc (length (trace s))) ''Invalid input, please try again'' @ nl)
       ((emit (Read prompt (tty h (nread s))) s)\<lparr>nread := Suc (nread s)\<rparr>)"
  by (subst get_input.simps) (simp add: Let_def)

lemma asked_step:
  "asked p ((emit (Read p l) s)\<lparr>nread := n\<rparr>) s' \<Longrightarrow> asked p s s'"
  by (auto simp add: asked_def grows_def asks_def)

lemma asked_once: "asked p s ((emit (Read p l) s)\<lparr>nread := n\<rparr>)"
  by (auto simp add: asked_def grows_def asks_def)

lemma get_input_state:
  assumes "get_input h prompt dflt vf out s = Some y"
  shows "asked prompt s (snd y)"
  using assms
proof (rule get_input.raw_induct
    [rotated, where P = "\<lambda>h prompt dflt vf out s y. asked prompt s (snd y)"])
  fix rec :: "host \<Rightarrow> string \<Rightarrow> string \<Rightarrow> (string \<Rightarrow> bool) option \<Rightarrow> string \<Rightarrow> state
      \<Rightarrow> (string \<times> state) option"
    and h :: host and prompt dflt :: string and vf :: "(string \<Rightarrow> bool) option"
    and out :: string and s :: state and y :: "string \<times> state"
  assume IH: "\<And>h prompt dflt vf out s y.
      rec h prompt dflt vf out s = Some y \<Longrightarrow> asked prompt s (snd y)"
  assume body: "(let line = tty h (nread s);
              s1 = (emit (Read prompt line) s)\<lparr>nread := Suc (nread s)\<rparr>;
              input = if line = [] \<and> dflt \<noteq> [] then dflt else line
          in case vf of
             None \<Rightarrow> Some (cmd_subst (out @ input @ nl), s1)
             | Some valid \<Rightarrow>
                 if valid input then Some (cmd_subst (out @ input @ nl), s1)
                 else rec h prompt dflt vf
                       (out @ log_line h (length (trace s1)) ''Invalid input, please try again'' @ nl)
                       s1) = Some y"
  show "asked prompt s (snd y)"
  proof (cases vf)
    case None
    with body show ?thesis
      by (auto simp add: Let_def asked_once)
  next
    case (Some valid)
    show ?thesis
    proof (cases "valid (if tty h (nread s) = [] \<and> dflt \<noteq> [] then dflt else tty h (nread s))")
      case True
      with body Some show ?thesis
        by (auto simp add: Let_def asked_once)
    next
      case False
      with body Some obtain out' where
        "rec h prompt dflt vf out' ((emit (Read prompt (tty h (nread s))) s)\<lparr>nread := Suc (nread s)\<rparr>) = Some y"
        by (auto simp add: Let_def)
      from IH [OF this] show ?thesis
        by (rule asked_step)
    qed
  qed
qed

lemma asked_reads: "asked p s s' \<Longrightarrow> grows is_read s s'"
  unfolding asked_def by (auto elim!: grows_weaken simp add: asks_def is_read_def split: event.splits)

lemma grows_mono_set: "grows P s s' \<Longrightarrow> e \<in> set (trace s) \<Longrightarrow> e \<in> set (trace s')"
  by (auto simp add: grows_def)

lemma collect_input_state:
  assumes "collect_input h s = Some (rq, s')"
  shows "grows is_read s s'" and "files s' = files s" and "exit_code s' = exit_code s"
    and "\<forall>p \<in> set prompts. \<exists>l. Read p l \<in> set (trace s')"
proof -
  from assms obtain y1 y2 y3 y4 y5 y6 where
    g1: "get_input h ''Enter IP address (e.g., 192.168.1.1): '' [] (Some validate_ip) [] s = Some y1"
    and g2: "get_input h ''Enter domain name (e.g., example.com): '' [] None [] (snd y1) = Some y2"
    and g3: "get_input h ''Enter password for MySQL root: '' [] None [] (snd y2) = Some y3"
    and g4: "get_input h ''Enter password for phpMyAdmin: '' [] None [] (snd y3) = Some y4"
    and g5: "get_input h ''Enter username for Samba (e.g., smbuser): '' [] None [] (snd y4) = Some y5"
    and g6: "get_input h ''Enter password for Samba: '' [] None [] (snd y5) = Some y6"
    and s': "s' = snd y6"
    by (auto simp add: collect_input_def split: option.splits prod.splits)
  note a1 = get_input_state [OF g1] and a2 = get_input_state [OF g2]
    and a3 = get_input_state [OF g3] and a4 = get_input_state [OF g4]
    and a5 = get_input_state [OF g5] and a6 = get_input_state [OF g6]
  note r1 = asked_reads [OF a1] and r2 = asked_reads [OF a2] and r3 = asked_reads [OF a3]
    and r4 = asked_reads [OF a4] and r5 = asked_reads [OF a5] and r6 = asked_reads [OF a6]
  have r26: "grows is_read (snd y1) s'" and r36: "grows is_read (snd y2) s'"
    and r46: "grows is_read (snd y3) s'" and r56: "grows is_read (snd y4) s'"
    and r66: "grows is_read (snd y5) s'"
    using r2 r3 r4 r5 r6 unfolding s' by (blast intro: grows_trans)+
  show "grows is_read s s'"
    using r1 r26 by (rule grows_trans)
  show "files s' = files s" and "exit_code s' = exit_code s"
    using a1 a2 a3 a4 a5 a6 unfolding s' asked_def by simp_all
  have m: "\<And>p y. asked p s (snd y) \<Longrightarrow> \<exists>l. Read p l \<in> set (trace (snd y))" for s
    by (simp add: asked_def)
  from m [OF a1] grows_mono_set [OF r26] have p1:
    "\<exists>l. Read ''Enter IP address (e.g., 192.168.1.1): '' l \<in> set (trace s')" by blast
  from m [OF a2] grows_mono_set [OF r36] have p2:
    "\<exists>l. Read ''Enter domain name (e.g., example.com): '' l \<in> set (trace s')" by blast
  from m [OF a3] grows_mono_set [OF r46] have p3:
    "\<exists>l. Read ''Enter password for MySQL root: '' l \<in> set (trace s')" by blast
  from m [OF a4] grows_mono_set [OF r56] have p4:
    "\<exists>l. Read ''Enter password for phpMyAdmin: '' l \<in> set (trace s')" by blast
  from m [OF a5] grows_mono_set [OF r66] have p5:
    "\<exists>l. Read ''Enter username for Samba (e.g., smbuser): '' l \<in> set (trace s')" by blast
  from m [OF a6] have p6:
    "\<exists>l. Read ''Enter password for Samba: '' l \<in> set (trace s')" unfolding s' by blast
  show "\<forall>p \<in> set prompts. \<exists>l. Read p l \<in> set (trace s')"
    unfolding prompts_def using p1 p2 p3 p4 p5 p6 by simp
qed

section \<open>The stages before the packages\<close>

lemma andthen_proj:
  "trace (andthen s f) = (if running s then trace (f s) else trace s)"
  "files (andthen s f) = (if running s then files (f s) else files s)"
  "exit_code (andthen s f) = (if running s then exit_code (f s) else exit_code s)"
  by (simp_all add: andthen_def)

lemma quiet_refl: "quiet P s s"
  by (simp add: quiet_def grows_refl)

lemma quiet_trans: "quiet P s s1 \<Longrightarrow> quiet P s1 s2 \<Longrightarrow> quiet P s s2"
  unfolding quiet_def by (auto intro: grows_trans)

lemma quiet_weaken: "quiet P s s1 \<Longrightarrow> (\<And>e. P e \<Longrightarrow> Q e) \<Longrightarrow> quiet Q s s1"
  unfolding quiet_def by (auto elim: grows_weaken)

lemma quiet_andthen: "quiet P s s1 \<Longrightarrow> (\<And>x. quiet P x (f x)) \<Longrightarrow> quiet P s (andthen s1 f)"
  by (auto simp add: andthen_def intro: quiet_trans)

lemma quiet_fix: "quiet prep s (fix_interrupted h s)"
  by (simp add: quiet_def grows_def fix_interrupted_def ev_defs)

lemma quiet_update: "quiet prep s (update_system h s)"
  by (simp add: quiet_def grows_def update_system_def exec_eq if_proj Let_def ev_defs)

lemma quiet_upgrade: "quiet prep s (upgrade_system h s)"
  by (simp add: quiet_def grows_def upgrade_system_def exec_eq if_proj Let_def ev_defs)

lemma quiet_universe: "quiet prep s (add_universe h s)"
  by (simp add: quiet_def grows_def add_universe_def ev_defs)

lemma quiet_preseed: "quiet prep s (preseed h s)"
  by (simp add: quiet_def grows_def preseed_def Let_def ev_defs)

section \<open>Installing the packages\<close>

lemma delays_ok_append: "delays_ok xs \<Longrightarrow> delays_ok ys \<Longrightarrow> delays_ok (xs @ ys)"
proof (induction xs)
  case Nil
  then show ?case by simp
next
  case (Cons e xs)
  then show ?case by (cases xs) (auto split: if_splits)
qed

lemma delays_ok_calm: "list_all (\<lambda>e. \<not> any_failed_install e) xs \<Longrightarrow> delays_ok xs"
  by (induction xs) simp_all

lemma pkg_of_other:
  assumes "list_all (pkg_of p) evs"
  shows "q \<noteq> p \<Longrightarrow> filter (is_install q) evs = []"
    and "q \<noteq> p \<Longrightarrow> filter (is_failed_install q) evs = []"
    and "Exec [''dpkg'', ''-l'', q] b \<notin> set evs"
    and "list_all pkg evs"
    and "filter is_write evs = []"
  using assms
  by (induction evs)
    (auto simp add: pkg_of_def is_install_def is_failed_install_def pkg_def is_service_cmd_def
      is_write_def split: event.splits)

lemma failed_le_installs:
  "length (filter (is_failed_install p) evs) \<le> length (filter (is_install p) evs)"
  by (induction evs) (auto simp add: is_failed_install_def is_install_def)

lemma install_attempts_over:
  "\<not> attempt \<le> max_attempts \<Longrightarrow>
   install_attempts h p attempt s =
     handle_error h (''Failed to install '' @ p @ '' after '' @ show_nat max_attempts @ '' attempts'') s"
  by (subst install_attempts.simps) simp

lemma install_attempts_success:
  "attempt \<le> max_attempts \<Longrightarrow>
   succeeds h (Suc (length (trace s))) [''apt-get'', ''install'', ''-y'', p] \<Longrightarrow>
   install_attempts h p attempt s =
     log h (''Successfully installed '' @ p)
       (exec_ignore h [''apt-get'', ''install'', ''-y'', p]
         (log h (''Attempting to install '' @ p @ '' (Attempt '' @ show_nat attempt
                          @ '' of '' @ show_nat max_attempts @ '')'') s))"
  by (subst install_attempts.simps) (simp add: exec_eq Let_def)

lemma install_attempts_failure:
  "attempt \<le> max_attempts \<Longrightarrow>
   \<not> succeeds h (Suc (length (trace s))) [''apt-get'', ''install'', ''-y'', p] \<Longrightarrow>
   install_attempts h p attempt s =
     install_attempts h p (Suc attempt)
       (emit (Sleep 5) (exec_ignore h [''apt-get'', ''install'', ''-y'', p]
         (log h (''Attempting to install '' @ p @ '' (Attempt '' @ show_nat attempt
                          @ '' of '' @ show_nat max_attempts @ '')'') s)))"
  by (subst install_attempts.simps) (simp add: exec_eq Let_def)

lemma install_attempts_run:
  "attempt_run p (Suc max_attempts - attempt) s (install_attempts h p attempt s)"
proof (induction "Suc max_attempts - attempt" arbitrary: attempt s)
  case 0
  then have "\<not> attempt \<le> max_attempts" by simp
  then show ?case
    by (simp add: install_attempts_over attempt_run_def pkg_of_def any_failed_install_def
        is_install_def is_failed_install_def)
next
  case (Suc k)
  then have le: "attempt \<le> max_attempts" and k: "k = Suc max_attempts - Suc attempt"
    by simp_all
  let ?argv = "[''apt-get'', ''install'', ''-y'', p]"
  show ?case
  proof (cases "succeeds h (Suc (length (trace s))) ?argv")
    case True
    from Suc(2) le True show ?thesis
      by (auto simp add: install_attempts_success [OF le True] attempt_run_def pkg_of_def
          any_failed_install_def is_install_def is_failed_install_def)
  next
    case False
    let ?s1 = "emit (Sleep 5) (exec_ignore h ?argv
         (log h (''Attempting to install '' @ p @ '' (Attempt '' @ show_nat attempt
                          @ '' of '' @ show_nat max_attempts @ '')'') s))"
    from Suc(1) [OF k, of ?s1] k
    have "attempt_run p k ?s1 (install_attempts h p (Suc attempt) ?s1)" by simp
    then obtain evs where
      t: "trace (install_attempts h p (Suc attempt) ?s1) = trace ?s1 @ evs"
      and a: "list_all (pkg_of p) evs" and d: "delays_ok evs"
      and n: "length (filter (is_install p) evs) \<le> k"
      and f: "length (filter (is_failed_install p) evs) = k \<longrightarrow>
               exit_code (install_attempts h p (Suc attempt) ?s1) = Some 1"
      and fl: "files (install_attempts h p (Suc attempt) ?s1) = files ?s1"
      and x: "exit_code (install_attempts h p (Suc attempt) ?s1) = exit_code ?s1
              \<or> exit_code (install_attempts h p (Suc attempt) ?s1) = Some 1"
      unfolding attempt_run_def by blast
    let ?pre = "[Log (log_line h (length (trace s)) (''Attempting to install '' @ p @ '' (Attempt ''
                   @ show_nat attempt @ '' of '' @ show_nat max_attempts @ '')'')),
                 Exec ?argv False, Sleep 5]"
    have t': "trace (install_attempts h p attempt s) = trace s @ (?pre @ evs)"
      using t False by (simp add: install_attempts_failure [OF le False])
    have d': "delays_ok (?pre @ evs)"
      by (rule delays_ok_append) (simp_all add: any_failed_install_def d)
    have a': "list_all (pkg_of p) (?pre @ evs)"
      using a by (simp add: pkg_of_def)
    have n': "length (filter (is_install p) (?pre @ evs)) \<le> Suc k"
      using n by (simp add: is_install_def)
    have f': "length (filter (is_failed_install p) (?pre @ evs)) = Suc k \<longrightarrow>
               exit_code (install_attempts h p attempt s) = Some 1"
      using f by (simp add: is_failed_install_def install_attempts_failure [OF le False])
    have fl': "files (install_attempts h p attempt s) = files s"
      using fl by (simp add: install_attempts_failure [OF le False])
    have x': "exit_code (install_attempts h p attempt s) = exit_code s
              \<or> exit_code (install_attempts h p attempt s) = Some 1"
      using x by (simp add: install_attempts_failure [OF le False])
    from t' a' d' n' f' fl' x' Suc(2) show ?thesis
      unfolding attempt_run_def by (metis)
  qed
qed

lemma install_package_run: "attempt_run p 3 s (install_package h p s)"
  using install_attempts_run [of p 1 s h] by (simp add: install_package_def max_attempts_def)

lemma install_all_installed:
  "succeeds h (length (trace s)) [''dpkg'', ''-l'', p] \<Longrightarrow>
   install_all h (p # ps) s = install_all h ps (exec_ignore h [''dpkg'', ''-l'', p] s)"
  by (simp add: check_package_installed_def exec_eq)

lemma install_all_missing:
  "\<not> succeeds h (length (trace s)) [''dpkg'', ''-l'', p] \<Longrightarrow>
   install_all h (p # ps) s =
     andthen (install_package h p (exec_ignore h [''dpkg'', ''--configure'', ''-a'']
                (exec_ignore h [''dpkg'', ''-l'', p] s)))
       (install_all h ps)"
  by (simp add: check_package_installed_def exec_eq Let_def)

lemma install_all_run: "distinct ps \<Longrightarrow> installs_run ps s (install_all h ps s)"
proof (induction ps arbitrary: s)
  case Nil
  show ?case by (simp add: installs_run_def)
next
  case (Cons p ps)
  then have notin: "p \<notin> set ps" and dist: "distinct ps" by simp_all
  let ?q = "[''dpkg'', ''-l'', p]"
  let ?s1 = "exec_ignore h ?q s"
  show ?case
  proof (cases "succeeds h (length (trace s)) ?q")
    case True
    let ?r = "install_all h ps ?s1"
    have eq: "install_all h (p # ps) s = ?r"
      by (rule install_all_installed [OF True])
    from Cons.IH [OF dist, of ?s1] obtain evs where
      t: "trace ?r = trace ?s1 @ evs" and k: "list_all pkg evs" and d: "delays_ok evs"
      and n: "\<And>q. length (filter (is_install q) evs) \<le> 3"
      and o: "\<And>q. q \<notin> set ps \<Longrightarrow> filter (is_install q) evs = []
                       \<and> Exec [''dpkg'', ''-l'', q] True \<notin> set evs"
      and i: "\<And>q. Exec [''dpkg'', ''-l'', q] True \<in> set evs \<Longrightarrow> filter (is_install q) evs = []"
      and f: "\<And>q. length (filter (is_failed_install q) evs) = 3 \<Longrightarrow> exit_code ?r = Some 1"
      and fl: "files ?r = files ?s1"
      and x: "exit_code ?r = exit_code ?s1 \<or> exit_code ?r = Some 1"
      unfolding installs_run_def by blast
    let ?evs = "Exec ?q True # evs"
    have t': "trace ?r = trace s @ ?evs" using t True by simp
    have k': "list_all pkg ?evs" using k by (simp add: pkg_def is_service_cmd_def)
    have d': "delays_ok ?evs" using d by (simp add: any_failed_install_def)
    have n': "length (filter (is_install q) ?evs) \<le> 3" for q
      using n [of q] by (simp add: is_install_def)
    have o': "q \<notin> set (p # ps) \<longrightarrow> filter (is_install q) ?evs = []
                \<and> Exec [''dpkg'', ''-l'', q] True \<notin> set ?evs" for q
      using o [of q] by (auto simp add: is_install_def)
    have i': "Exec [''dpkg'', ''-l'', q] True \<in> set ?evs \<longrightarrow> filter (is_install q) ?evs = []" for q
      using i [of q] o [of p] notin by (auto simp add: is_install_def)
    have f': "length (filter (is_failed_install q) ?evs) = 3 \<longrightarrow> exit_code ?r = Some 1" for q
      using f [of q] by (simp add: is_failed_install_def)
    have fl': "files ?r = files s" using fl by simp
    have x': "exit_code ?r = exit_code s \<or> exit_code ?r = Some 1" using x by simp
    show ?thesis
      unfolding installs_run_def eq
      using t' k' d' n' o' i' f' fl' x' by blast
  next
    case False
    let ?c = "[''dpkg'', ''--configure'', ''-a'']"
    let ?s2 = "exec_ignore h ?c ?s1"
    let ?s3 = "install_package h p ?s2"
    define pre where "pre = [Exec ?q False, Exec ?c (succeeds h (Suc (length (trace s))) ?c)]"
    have eq: "install_all h (p # ps) s = andthen ?s3 (install_all h ps)"
      by (rule install_all_missing [OF False])
    from install_package_run [of p ?s2 h] obtain eva where
      ta: "trace ?s3 = trace ?s2 @ eva" and aa: "list_all (pkg_of p) eva" and da: "delays_ok eva"
      and na: "length (filter (is_install p) eva) \<le> 3"
      and fa: "length (filter (is_failed_install p) eva) = 3 \<longrightarrow> exit_code ?s3 = Some 1"
      and fla: "files ?s3 = files ?s2"
      and xa: "exit_code ?s3 = exit_code ?s2 \<or> exit_code ?s3 = Some 1"
      unfolding attempt_run_def by blast
    note oth = pkg_of_other [OF aa]
    have pre_i: "filter (is_install q) pre = []" and pre_f: "filter (is_failed_install q) pre = []"
      and pre_q: "Exec [''dpkg'', ''-l'', q] True \<notin> set pre" for q
      by (simp_all add: pre_def is_install_def is_failed_install_def)
    have pre_k: "list_all pkg pre" by (simp add: pre_def pkg_def is_service_cmd_def)
    have pre_d: "delays_ok pre" by (simp add: pre_def any_failed_install_def)
    have t3: "trace ?s3 = trace s @ (pre @ eva)" using ta False by (simp add: pre_def)
    show ?thesis
    proof (cases "running ?s3")
      case stop: False
      let ?evs = "pre @ eva"
      have r: "install_all h (p # ps) s = ?s3" using eq stop by (simp add: andthen_def)
      have k': "list_all pkg ?evs" using pre_k oth(4) by simp
      have d': "delays_ok ?evs" using pre_d da by (rule delays_ok_append)
      have n': "length (filter (is_install q) ?evs) \<le> 3" for q
        using na oth(1) [of q] pre_i [of q] by (cases "q = p") simp_all
      have o': "q \<notin> set (p # ps) \<longrightarrow> filter (is_install q) ?evs = []
                  \<and> Exec [''dpkg'', ''-l'', q] True \<notin> set ?evs" for q
        using oth(1) [of q] oth(3) [of q True] pre_i [of q] pre_q [of q] by auto
      have i': "Exec [''dpkg'', ''-l'', q] True \<in> set ?evs \<longrightarrow> filter (is_install q) ?evs = []" for q
        using oth(3) [of q True] pre_q [of q] by simp
      have f': "length (filter (is_failed_install q) ?evs) = 3 \<longrightarrow> exit_code ?s3 = Some 1" for q
        using fa oth(2) [of q] pre_f [of q] by (cases "q = p") simp_all
      have fl': "files ?s3 = files s" using fla by simp
      have x': "exit_code ?s3 = exit_code s \<or> exit_code ?s3 = Some 1" using xa by simp
      show ?thesis
        unfolding installs_run_def r
        using t3 k' d' n' o' i' f' fl' x' by blast
    next
      case go: True
      let ?r = "install_all h ps ?s3"
      have r: "install_all h (p # ps) s = ?r" using eq go by (simp add: andthen_def)
      from go fa have nofail: "length (filter (is_failed_install p) eva) \<noteq> 3"
        by (auto simp add: running_def)
      from Cons.IH [OF dist, of ?s3] obtain evs where
        t: "trace ?r = trace ?s3 @ evs" and k: "list_all pkg evs" and d: "delays_ok evs"
        and n: "\<And>q. length (filter (is_install q) evs) \<le> 3"
        and o: "\<And>q. q \<notin> set ps \<Longrightarrow> filter (is_install q) evs = []
                         \<and> Exec [''dpkg'', ''-l'', q] True \<notin> set evs"
        and i: "\<And>q. Exec [''dpkg'', ''-l'', q] True \<in> set evs \<Longrightarrow> filter (is_install q) evs = []"
        and f: "\<And>q. length (filter (is_failed_install q) evs) = 3 \<Longrightarrow> exit_code ?r = Some 1"
        and fl: "files ?r = files ?s3"
        and x: "exit_code ?r = exit_code ?s3 \<or> exit_code ?r = Some 1"
        unfolding installs_run_def by blast
      let ?evs = "(pre @ eva) @ evs"
      have t': "trace ?r = trace s @ ?evs" using t t3 by simp
      have k': "list_all pkg ?evs" using pre_k oth(4) k by simp
      have d': "delays_ok ?evs"
        using pre_d da d by (intro delays_ok_append)
      have p_rest: "filter (is_install p) evs = []" "filter (is_failed_install p) evs = []"
        using o [OF notin] failed_le_installs [of p evs] by simp_all
      have n': "length (filter (is_install q) ?evs) \<le> 3" for q
        using na n [of q] oth(1) [of q] pre_i [of q] p_rest by (cases "q = p") simp_all
      have o': "q \<notin> set (p # ps) \<longrightarrow> filter (is_install q) ?evs = []
                  \<and> Exec [''dpkg'', ''-l'', q] True \<notin> set ?evs" for q
        using oth(1) [of q] oth(3) [of q True] pre_i [of q] pre_q [of q] o [of q]
        by auto
      have i': "Exec [''dpkg'', ''-l'', q] True \<in> set ?evs \<longrightarrow> filter (is_install q) ?evs = []" for q
      proof
        assume "Exec [''dpkg'', ''-l'', q] True \<in> set ?evs"
        with oth(3) [of q True] pre_q [of q]
        have m: "Exec [''dpkg'', ''-l'', q] True \<in> set evs" by simp
        with o [OF notin] have "q \<noteq> p" by blast
        with oth(1) [of q] pre_i [of q] i [OF m] show "filter (is_install q) ?evs = []" by simp
      qed
      have f': "length (filter (is_failed_install q) ?evs) = 3 \<longrightarrow> exit_code ?r = Some 1" for q
        using f [of q] oth(2) [of q] pre_f [of q] p_rest nofail by (cases "q = p") simp_all
      have fl': "files ?r = files s" using fl fla by simp
      have x': "exit_code ?r = exit_code s \<or> exit_code ?r = Some 1" using x xa by auto
      show ?thesis
        unfolding installs_run_def r
        using t' k' d' n' o' i' f' fl' x' by blast
    qed
  qed
qed

section \<open>Backups\<close>

lemma steps_trans: "steps P s s1 \<Longrightarrow> steps P s1 s2 \<Longrightarrow> steps P s s2"
  unfolding steps_def by (auto intro: grows_trans)

lemma steps_andthen: "steps P s s1 \<Longrightarrow> (\<And>x. steps P x (f x)) \<Longrightarrow> steps P s (andthen s1 f)"
  by (auto simp add: andthen_def intro: steps_trans)

lemma quiet_steps: "quiet P s s' \<Longrightarrow> steps P s s'"
  by (simp add: quiet_def steps_def)

lemma steps_running: "steps P s s' \<Longrightarrow> running s' \<Longrightarrow> running s"
  by (auto simp add: steps_def running_def)

lemma backup_config_steps: "steps prep s (backup_config h f s)"
  by (simp add: steps_def grows_def backup_config_def exec_eq if_proj Let_def ev_defs)

lemma backup_config_other:
  "q \<noteq> backup_name h f s \<Longrightarrow> files (backup_config h f s) q = files s q"
  by (simp add: backup_config_def backup_name_def exec_eq if_proj Let_def)

lemma backup_config_copy:
  assumes "files s f = Some c" and "running s" and "running (backup_config h f s)"
  shows "trace (backup_config h f s) = trace s @ [Exec [''cp'', f, backup_name h f s] True]"
    and "files (backup_config h f s) (backup_name h f s) = Some c"
  using assms
  by (auto simp add: backup_config_def backup_name_def exec_eq if_proj Let_def running_def
      split: if_splits)

lemma backup_all_steps: "steps prep s (backup_all h s)"
  by (auto simp add: backup_all_def Let_def intro!: steps_andthen backup_config_steps)

lemma andthen_running:
  "running (andthen s f) \<Longrightarrow> running s \<and> andthen s f = f s"
  by (cases "running s") (simp_all add: andthen_def)

lemma backup_names_differ:
  "backup_name h ''/etc/resolv.conf'' a \<noteq> backup_name h ''/etc/bind/named.conf.default-zones'' b"
  "backup_name h ''/etc/resolv.conf'' a \<noteq> backup_name h ''/etc/apache2/sites-available/000-default.conf'' b"
  "backup_name h ''/etc/resolv.conf'' a \<noteq> backup_name h ''/etc/samba/smb.conf'' b"
  "backup_name h ''/etc/bind/named.conf.default-zones'' a \<noteq> backup_name h ''/etc/apache2/sites-available/000-default.conf'' b"
  "backup_name h ''/etc/bind/named.conf.default-zones'' a \<noteq> backup_name h ''/etc/samba/smb.conf'' b"
  "backup_name h ''/etc/apache2/sites-available/000-default.conf'' a \<noteq> backup_name h ''/etc/samba/smb.conf'' b"
  by (simp_all add: backup_name_def)

lemma backup_name_not_target:
  "p \<in> set backed_up \<Longrightarrow> q \<in> set backed_up \<Longrightarrow> q \<noteq> backup_name h p a"
  by (auto simp add: backed_up_def backup_name_def)

lemma backup_name_not_rendered:
  "p \<in> set backed_up \<Longrightarrow> q \<in> set rendered_files \<Longrightarrow> q \<noteq> backup_name h p a"
  "p \<in> set backed_up \<Longrightarrow> ''/etc/apache2/apache2.conf'' \<noteq> backup_name h p a"
  by (auto simp add: backed_up_def rendered_files_def backup_name_def)

lemma backup_all_keeps:
  assumes r: "running (backup_all h s)" and p: "p \<in> set backed_up" and c: "files s p = Some c"
  shows "\<exists>x pre post.
           trace (backup_all h s) = trace s @ pre @ Exec [''cp'', p, backup_name h p x] True # post
           \<and> list_all prep pre \<and> files (backup_all h s) (backup_name h p x) = Some c"
proof -
  define f1 where "f1 = ''/etc/resolv.conf''"
  define f2 where "f2 = ''/etc/bind/named.conf.default-zones''"
  define f3 where "f3 = ''/etc/apache2/sites-available/000-default.conf''"
  define f4 where "f4 = ''/etc/samba/smb.conf''"
  define s1 where "s1 = backup_config h f1 s"
  define s2 where "s2 = andthen s1 (backup_config h f2)"
  define s3 where "s3 = andthen s2 (backup_config h f3)"
  define s4 where "s4 = andthen s3 (backup_config h f4)"
  have all: "backup_all h s = s4"
    by (simp add: backup_all_def s1_def s2_def s3_def s4_def f1_def f2_def f3_def f4_def)
  have names: "backup_name h f1 a \<noteq> backup_name h f2 b" "backup_name h f1 a \<noteq> backup_name h f3 b"
    "backup_name h f1 a \<noteq> backup_name h f4 b" "backup_name h f2 a \<noteq> backup_name h f3 b"
    "backup_name h f2 a \<noteq> backup_name h f4 b" "backup_name h f3 a \<noteq> backup_name h f4 b" for a b
    unfolding f1_def f2_def f3_def f4_def by (rule backup_names_differ)+
  have targets: "f2 \<noteq> backup_name h f1 a" "f3 \<noteq> backup_name h f1 a" "f4 \<noteq> backup_name h f1 a"
    "f3 \<noteq> backup_name h f2 a" "f4 \<noteq> backup_name h f2 a" "f4 \<noteq> backup_name h f3 a" for a
    unfolding f1_def f2_def f3_def f4_def by (simp_all add: backup_name_def)
  from r all have r4: "running s4" by simp
  from andthen_running [of s3 "backup_config h f4"] r4
  have r3: "running s3" and q4: "s4 = backup_config h f4 s3" by (simp_all add: s4_def)
  from andthen_running [of s2 "backup_config h f3"] r3
  have r2: "running s2" and q3: "s3 = backup_config h f3 s2" by (simp_all add: s3_def)
  from andthen_running [of s1 "backup_config h f2"] r2
  have r1: "running s1" and q2: "s2 = backup_config h f2 s1" by (simp_all add: s2_def)
  have r0: "running s"
    using backup_config_steps [of s h f1] r1 unfolding s1_def by (rule steps_running)
  have st: "\<exists>evs. trace (backup_config h f x) = trace x @ evs \<and> list_all prep evs" for f x
    using backup_config_steps [of x h f] by (simp add: steps_def grows_def)
  from st [of f1 s] obtain e1 where e1: "trace s1 = trace s @ e1" "list_all prep e1"
    unfolding s1_def by (elim exE conjE)
  from st [of f2 s1] obtain e2 where e2: "trace s2 = trace s1 @ e2" "list_all prep e2"
    unfolding q2 by (elim exE conjE)
  from st [of f3 s2] obtain e3 where e3: "trace s3 = trace s2 @ e3" "list_all prep e3"
    unfolding q3 by (elim exE conjE)
  from st [of f4 s3] obtain e4 where e4: "trace s4 = trace s3 @ e4" "list_all prep e4"
    unfolding q4 by (elim exE conjE)
  from p have "p = f1 \<or> p = f2 \<or> p = f3 \<or> p = f4"
    by (simp add: backed_up_def f1_def f2_def f3_def f4_def)
  then consider "p = f1" | "p = f2" | "p = f3" | "p = f4" by (elim disjE)
  then show ?thesis
  proof cases
    case 1
    let ?d = "backup_name h f1 s"
    from backup_config_copy [OF c [unfolded 1] r0 r1 [unfolded s1_def]]
    have t: "trace s1 = trace s @ [Exec [''cp'', f1, ?d] True]" and f: "files s1 ?d = Some c"
      by (simp_all only: s1_def)
    have "files s2 ?d = Some c"
      unfolding q2 using f names(1) by (simp add: backup_config_other)
    then have "files s3 ?d = Some c"
      unfolding q3 using names(2) by (simp add: backup_config_other)
    then have f4: "files s4 ?d = Some c"
      unfolding q4 using names(3) by (simp add: backup_config_other)
    have t4: "trace s4 = trace s @ [] @ Exec [''cp'', f1, ?d] True # (e2 @ e3 @ e4)"
      by (simp only: e4 e3 e2 t append_assoc append.simps)
    show ?thesis
      unfolding all 1
      by (rule exI [of _ s], rule exI [of _ "[]"], rule exI [of _ "e2 @ e3 @ e4"])
        (simp only: t4 f4 list.pred_inject simp_thms)
  next
    case 2
    let ?d = "backup_name h f2 s1"
    have c1: "files s1 f2 = Some c"
      unfolding s1_def using c [unfolded 2] targets(1) by (simp add: backup_config_other)
    from backup_config_copy [OF c1 r1 r2 [unfolded q2]]
    have t: "trace s2 = trace s1 @ [Exec [''cp'', f2, ?d] True]" and f: "files s2 ?d = Some c"
      by (simp_all only: q2)
    have "files s3 ?d = Some c"
      unfolding q3 using f names(4) by (simp add: backup_config_other)
    then have f4: "files s4 ?d = Some c"
      unfolding q4 using names(5) by (simp add: backup_config_other)
    have t4: "trace s4 = trace s @ e1 @ Exec [''cp'', f2, ?d] True # (e3 @ e4)"
      by (simp only: e4 e3 t e1 append_assoc append.simps)
    show ?thesis
      unfolding all 2
      by (rule exI [of _ s1], rule exI [of _ e1], rule exI [of _ "e3 @ e4"])
        (simp only: t4 f4 e1(2) simp_thms)
  next
    case 3
    let ?d = "backup_name h f3 s2"
    have c1: "files s1 f3 = Some c"
      unfolding s1_def using c [unfolded 3] targets(2) by (simp add: backup_config_other)
    have c2: "files s2 f3 = Some c"
      unfolding q2 using c1 targets(4) by (simp add: backup_config_other)
    from backup_config_copy [OF c2 r2 r3 [unfolded q3]]
    have t: "trace s3 = trace s2 @ [Exec [''cp'', f3, ?d] True]" and f: "files s3 ?d = Some c"
      by (simp_all only: q3)
    have f4: "files s4 ?d = Some c"
      unfolding q4 using f names(6) by (simp add: backup_config_other)
    have t4: "trace s4 = trace s @ (e1 @ e2) @ Exec [''cp'', f3, ?d] True # e4"
      by (simp only: e4 t e2 e1 append_assoc append.simps)
    have l: "list_all prep (e1 @ e2)" using e1(2) e2(2) by simp
    show ?thesis
      unfolding all 3
      by (rule exI [of _ s2], rule exI [of _ "e1 @ e2"], rule exI [of _ e4])
        (simp only: t4 f4 l simp_thms)
  next
    case 4
    let ?d = "backup_name h f4 s3"
    have c1: "files s1 f4 = Some c"
      unfolding s1_def using c [unfolded 4] targets(3) by (simp add: backup_config_other)
    have c2: "files s2 f4 = Some c"
      unfolding q2 using c1 targets(5) by (simp add: backup_config_other)
    have c3: "files s3 f4 = Some c"
      unfolding q3 using c2 targets(6) by (simp add: backup_config_other)
    from backup_config_copy [OF c3 r3 r4 [unfolded q4]]
    have t: "trace s4 = trace s3 @ [Exec [''cp'', f4, ?d] True]" and f: "files s4 ?d = Some c"
      by (simp_all only: q4)
    have t4: "trace s4 = trace s @ (e1 @ e2 @ e3) @ Exec [''cp'', f4, ?d] True # []"
      by (simp only: t e3 e2 e1 append_assoc append.simps)
    have l: "list_all prep (e1 @ e2 @ e3)" using e1(2) e2(2) e3(2) by simp
    show ?thesis
      unfolding all 4
      by (rule exI [of _ s3], rule exI [of _ "e1 @ e2 @ e3"], rule exI [of _ "[]"])
        (simp only: t4 f l simp_thms)
  qed
qed

section \<open>Lines 168--341\<close>

lemma warned_append: "warned xs \<Longrightarrow> warned ys \<Longrightarrow> warned (xs @ ys)"
proof (induction xs)
  case Nil
  then show ?case by simp
next
  case (Cons e xs)
  then show ?case by (cases xs) (auto split: if_splits)
qed

lemma warned_calm: "list_all (\<lambda>e. \<not> is_service_cmd e) xs \<Longrightarrow> warned xs"
  by (induction xs) simp_all

lemma has_infix_append: "has_infix pat (a @ pat @ b)"
proof (induction a)
  case Nil
  show ?case
  proof (cases "pat @ b")
    case Nil
    then show ?thesis by simp
  next
    case (Cons x xs)
    have "take (length pat) (pat @ b) = pat" by simp
    then have "has_infix pat (x # xs)" unfolding Cons by simp
    then show ?thesis by (simp add: Cons)
  qed
next
  case (Cons c a)
  then show ?case by simp
qed

lemma is_warning_log: "is_warning (Log (log_line h t (''WARNING: '' @ m)))"
  using has_infix_append [of "''] WARNING: ''" "''['' @ date_log (clock h t)" m]
  by (simp add: is_warning_def log_line_def)

lemma restart_services_same [simp]:
  "files (restart_services h svs s) = files s"
  "exit_code (restart_services h svs s) = exit_code s"
  by (induction svs arbitrary: s) (simp_all add: Let_def)

lemma reconciled_trans:
  "reconciled xs s s1 \<Longrightarrow> reconciled ys s1 s2 \<Longrightarrow> reconciled (xs @ ys) s s2"
  unfolding reconciled_def by (auto intro: warned_append)

lemma reconciled_plain: "grows plain s s' \<Longrightarrow> reconciled [] s s'"
  unfolding reconciled_def grows_def
  by (auto simp add: plain_def list_all_iff filter_empty_conv intro!: warned_calm)

lemma exec_or_warn_reconciled:
  "is_service_cmd (Exec a True) \<and> conf (Exec a True) \<Longrightarrow>
     reconciled [a] s (exec_or_warn h a m s)"
  using is_warning_log [of h "Suc (length (trace s))" m]
  by (auto simp add: reconciled_def conf_def any_install_def any_query_def is_service_cmd_def
      argv_of_def is_failure_def)

lemma restart_services_reconciled: "reconciled (restarts svs) s (restart_services h svs s)"
proof (induction svs arbitrary: s)
  case Nil
  show ?case by (simp add: reconciled_def restarts_def)
next
  case (Cons sv svs)
  let ?s1 = "exec_or_warn h [''systemctl'', ''restart'', sv] (''Failed to restart '' @ sv) s"
  let ?s2 = "exec_or_warn h [''systemctl'', ''enable'', sv] (''Failed to enable '' @ sv) ?s1"
  have a: "reconciled [[''systemctl'', ''restart'', sv]] s ?s1"
    by (rule exec_or_warn_reconciled)
      (simp add: is_service_cmd_def conf_def any_install_def any_query_def)
  have b: "reconciled [[''systemctl'', ''enable'', sv]] ?s1 ?s2"
    by (rule exec_or_warn_reconciled)
      (simp add: is_service_cmd_def conf_def any_install_def any_query_def)
  from reconciled_trans [OF reconciled_trans [OF a b] Cons [of ?s2]]
  show ?case by (simp add: restarts_def Let_def)
qed

lemma test_configuration_reconciled:
  "reconciled [[''apache2ctl'', ''configtest''], [''named-checkconf'']] s (test_configuration h s)"
proof -
  let ?s1 = "log h ''Testing configuration...'' s"
  let ?s2 = "exec_or_warn h [''apache2ctl'', ''configtest''] ''Apache config test failed'' ?s1"
  have a: "reconciled [] s ?s1"
    by (rule reconciled_plain) (simp add: grows_def plain_def conf_def is_service_cmd_def)
  have b: "reconciled [[''apache2ctl'', ''configtest'']] ?s1 ?s2"
    by (rule exec_or_warn_reconciled)
      (simp add: is_service_cmd_def conf_def any_install_def any_query_def)
  have c: "reconciled [[''named-checkconf'']] ?s2
             (exec_or_warn h [''named-checkconf''] ''BIND config test failed'' ?s2)"
    by (rule exec_or_warn_reconciled)
      (simp add: is_service_cmd_def conf_def any_install_def any_query_def)
  from reconciled_trans [OF reconciled_trans [OF a b] c]
  show ?thesis by (simp add: test_configuration_def Let_def)
qed

lemmas plain_defs = grows_def plain_def conf_def any_install_def any_query_def is_service_cmd_def

lemma render_dns_plain: "grows plain s (render_dns h rq s)"
  by (simp add: render_dns_def Let_def plain_defs)

lemma render_web_plain: "grows plain s (render_web h rq s)"
  by (simp add: render_web_def Let_def plain_defs)

lemma setup_samba_plain: "grows plain s (setup_samba h rq s)"
  by (simp add: setup_samba_def Let_def plain_defs)

lemma enable_apache_plain: "grows plain s (enable_apache h s)"
  by (simp add: enable_apache_def Let_def plain_defs)

lemma summary_plain: "grows plain s (summary h rq s)"
  by (simp add: summary_def Let_def plain_defs)

lemma configure_reconciled: "reconciled service_commands s (configure h rq s)"
proof -
  let ?a = "enable_apache h (setup_samba h rq (render_web h rq (render_dns h rq s)))"
  let ?b = "restart_services h services ?a"
  let ?c = "test_configuration h ?b"
  have "grows plain s ?a"
    by (rule grows_trans [OF grows_trans [OF grows_trans [OF render_dns_plain render_web_plain]
          setup_samba_plain] enable_apache_plain])
  then have 1: "reconciled [] s ?a" by (rule reconciled_plain)
  have 2: "reconciled (restarts services) ?a ?b" by (rule restart_services_reconciled)
  have 3: "reconciled [[''apache2ctl'', ''configtest''], [''named-checkconf'']] ?b ?c"
    by (rule test_configuration_reconciled)
  have 4: "reconciled [] ?c (summary h rq ?c)"
    by (rule reconciled_plain) (rule summary_plain)
  from reconciled_trans [OF reconciled_trans [OF reconciled_trans [OF 1 2] 3] 4]
  show ?thesis
    by (simp add: configure_def restarts_def services_def service_commands_def)
qed

lemma configure_exit [simp]: "exit_code (configure h rq s) = Some 0"
  by (simp add: configure_def summary_def Let_def)

lemma test_configuration_files [simp]: "files (test_configuration h s) = files s"
  by (simp add: test_configuration_def Let_def)

lemma summary_files [simp]: "files (summary h rq s) = files s"
  by (simp add: summary_def Let_def)

lemmas configure_defs = configure_def render_dns_def render_web_def setup_samba_def
  enable_apache_def Let_def

lemma configure_rendered:
  "files (configure h rq s) ''/etc/resolv.conf'' = Some (resolv_conf rq)"
  "files (configure h rq s) ''/etc/bind/named.conf.default-zones'' = Some (named_conf_default_zones rq)"
  "files (configure h rq s) ''/etc/bind/smk.db''
     = Some (smk_db (clock h (Suc (Suc (length (trace s))))) rq)"
  "files (configure h rq s) ''/etc/bind/smk.ip''
     = Some (smk_ip (clock h (Suc (Suc (Suc (length (trace s)))))) rq)"
  "files (configure h rq s) ''/etc/apache2/sites-available/000-default.conf'' = Some (default_vhost rq)"
  "files (configure h rq s) ''/var/www/index.php'' = Some (index_php rq)"
  "files (configure h rq s) ''/etc/samba/smb.conf'' = Some (smb_conf (hostname h) rq)"
  by (simp_all add: configure_defs)

lemma configure_other:
  "q \<notin> set rendered_files \<Longrightarrow> q \<noteq> ''/etc/apache2/apache2.conf'' \<Longrightarrow>
     files (configure h rq s) q = files s q"
  by (simp add: configure_defs rendered_files_def)

end
